theory Spec2Isabelle
  imports Main
begin

section \<open>Strings and runes\<close>

text \<open>
  A Go string is read by \<^verbatim>\<open>Slugify\<close> rune by rune (\<^verbatim>\<open>for _, r := range s\<close>) and
  written back from a rune slice, so text is modelled as the list of its code points.
  For well-formed UTF-8 text, decoding after encoding is the identity, and the byte
  length \<^verbatim>\<open>len(s)\<close> is the sum of the encoded widths of the runes.
\<close>

type_synonym rune = nat
type_synonym gostring = "rune list"

definition runes :: "string \<Rightarrow> gostring" where
  "runes s = map of_char s"

abbreviation dash :: rune where "dash \<equiv> 0x2D"
abbreviation comma :: rune where "comma \<equiv> 0x2C"
abbreviation period :: rune where "period \<equiv> 0x2E"
abbreviation space :: rune where "space \<equiv> 0x20"
abbreviation lowbar :: rune where "lowbar \<equiv> 0x5F"
abbreviation slash :: rune where "slash \<equiv> 0x2F"
abbreviation equals :: rune where "equals \<equiv> 0x3D"
abbreviation amp :: rune where "amp \<equiv> 0x26"
abbreviation caret :: rune where "caret \<equiv> 0x5E"

definition RuneLen :: "rune \<Rightarrow> nat" where
  "RuneLen r = (if r < 0x80 then 1 else if r < 0x800 then 2 else if r < 0x10000 then 3 else 4)"

definition len :: "gostring \<Rightarrow> nat" where
  "len s = sum_list (map RuneLen s)"

section \<open>kb/slug.go\<close>

subsection \<open>The table \<^verbatim>\<open>runename\<close>\<close>

text \<open>
  The map literal of the source, entry by entry and in the source's order, cut into ten
  lists so that each one is evaluated quickly. The keys of a Go map literal are distinct.
\<close>

definition runename_part0 :: "(rune \<times> string) list" where
  "runename_part0 = [
    (0x0021, ''excl''), (0x0022, ''quot''), (0x0023, ''num''), (0x0024, ''dollar''),
    (0x0025, ''percnt''), (0x0026, ''amp''), (0x0027, ''apos''), (0x0028, ''lpar''),
    (0x0029, ''rpar''), (0x002A, ''ast''), (0x002B, ''plus''), (0x002C, ''comma''),
    (0x002E, ''period''), (0x002F, ''sol''), (0x003A, ''colon''), (0x003B, ''semi''),
    (0x003C, ''lt''), (0x003D, ''equals''), (0x003E, ''gt''), (0x003F, ''quest''),
    (0x0040, ''commat''), (0x005B, ''lsqb''), (0x005C, ''bsol''), (0x005D, ''rsqb''),
    (0x005E, ''hat''), (0x005F, ''lowbar''), (0x0060, ''grave''), (0x007B, ''lcub''),
    (0x007C, ''vert''), (0x007D, ''rcub''), (0x00A1, ''iexcl''), (0x00A2, ''cent''),
    (0x00A3, ''pound''), (0x00A4, ''curren''), (0x00A5, ''yen''), (0x00A6, ''brvbar''),
    (0x00A7, ''sect''), (0x00A8, ''uml''), (0x00A9, ''copy''), (0x00AB, ''laquo''),
    (0x00AC, ''not''), (0x00AE, ''reg''), (0x00AF, ''macr''), (0x00B0, ''deg''),
    (0x00B1, ''pm''), (0x00B4, ''acute''), (0x00B6, ''para''), (0x00B7, ''middot''),
    (0x00B8, ''cedil''), (0x00BB, ''raquo''), (0x00BF, ''iquest''), (0x00D7, ''times''),
    (0x00F7, ''div''), (0x02D8, ''breve''), (0x02D9, ''dot''), (0x02DA, ''ring''),
    (0x02DB, ''ogon''), (0x02DC, ''tilde''), (0x02DD, ''dblac''), (0x03F6, ''bepsi''),
    (0x2010, ''dash''), (0x2013, ''ndash''), (0x2014, ''mdash''), (0x2015, ''horbar''),
    (0x2016, ''vert''), (0x2018, ''lsquo''), (0x2019, ''rsquo''), (0x201A, ''sbquo''),
    (0x201C, ''ldquo''), (0x201D, ''rdquo''), (0x201E, ''bdquo''), (0x2020, ''dagger''),
    (0x2021, ''dagger''), (0x2022, ''bull''), (0x2025, ''nldr''), (0x2026, ''mldr''),
    (0x2030, ''permil''), (0x2031, ''pertenk''), (0x2032, ''prime''), (0x2033, ''prime''),
    (0x2034, ''tprime''), (0x2035, ''bprime''), (0x2039, ''lsaquo''), (0x203A, ''rsaquo''),
    (0x203E, ''oline''), (0x2041, ''caret''), (0x2043, ''hybull''), (0x2044, ''frasl''),
    (0x204F, ''bsemi''), (0x2057, ''qprime'')]"

definition runename_part1 :: "(rune \<times> string) list" where
  "runename_part1 = [
    (0x20AC, ''euro''), (0x2105, ''incare''), (0x2116, ''numero''), (0x2117, ''copysr''),
    (0x2118, ''wp''), (0x211E, ''rx''), (0x2122, ''trade''), (0x2127, ''mho''),
    (0x2129, ''iiota''), (0x2190, ''larr''), (0x2191, ''uarr''), (0x2192, ''rarr''),
    (0x2193, ''darr''), (0x2194, ''harr''), (0x2195, ''varr''), (0x2196, ''nwarr''),
    (0x2197, ''nearr''), (0x2198, ''searr''), (0x2199, ''swarr''), (0x219A, ''nlarr''),
    (0x219B, ''nrarr''), (0x219D, ''rarrw''), (0x219E, ''larr''), (0x219F, ''uarr''),
    (0x21A0, ''rarr''), (0x21A1, ''darr''), (0x21A2, ''larrtl''), (0x21A3, ''rarrtl''),
    (0x21A4, ''mapstoleft''), (0x21A5, ''mapstoup''), (0x21A6, ''map''), (0x21A7, ''mapstodown''),
    (0x21A9, ''larrhk''), (0x21AA, ''rarrhk''), (0x21AB, ''larrlp''), (0x21AC, ''rarrlp''),
    (0x21AD, ''harrw''), (0x21AE, ''nharr''), (0x21B0, ''lsh''), (0x21B1, ''rsh''),
    (0x21B2, ''ldsh''), (0x21B3, ''rdsh''), (0x21B5, ''crarr''), (0x21B6, ''cularr''),
    (0x21B7, ''curarr''), (0x21BA, ''olarr''), (0x21BB, ''orarr''), (0x21BC, ''lharu''),
    (0x21BD, ''lhard''), (0x21BE, ''uharr''), (0x21BF, ''uharl''), (0x21C0, ''rharu''),
    (0x21C1, ''rhard''), (0x21C2, ''dharr''), (0x21C3, ''dharl''), (0x21C4, ''rlarr''),
    (0x21C5, ''udarr''), (0x21C6, ''lrarr''), (0x21C7, ''llarr''), (0x21C8, ''uuarr''),
    (0x21C9, ''rrarr''), (0x21CA, ''ddarr''), (0x21CB, ''lrhar''), (0x21CC, ''rlhar''),
    (0x21CD, ''nlarr''), (0x21CE, ''nharr''), (0x21CF, ''nrarr''), (0x21D0, ''larr''),
    (0x21D1, ''uarr''), (0x21D2, ''rarr''), (0x21D3, ''darr''), (0x21D4, ''iff''),
    (0x21D5, ''varr''), (0x21D6, ''nwarr''), (0x21D7, ''nearr''), (0x21D8, ''searr''),
    (0x21D9, ''swarr''), (0x21DA, ''laarr''), (0x21DB, ''raarr''), (0x21DD, ''zigrarr''),
    (0x21E4, ''larrb''), (0x21E5, ''rarrb''), (0x21F5, ''duarr''), (0x21FD, ''loarr''),
    (0x21FE, ''roarr''), (0x21FF, ''hoarr''), (0x2200, ''forall''), (0x2201, ''comp''),
    (0x2202, ''part''), (0x2203, ''exist'')]"

definition runename_part2 :: "(rune \<times> string) list" where
  "runename_part2 = [
    (0x2204, ''nexist''), (0x2205, ''empty''), (0x2207, ''del''), (0x2208, ''in''),
    (0x2209, ''notin''), (0x220B, ''ni''), (0x220C, ''notni''), (0x220F, ''prod''),
    (0x2210, ''coprod''), (0x2211, ''sum''), (0x2212, ''minus''), (0x2213, ''mp''),
    (0x2214, ''plusdo''), (0x2216, ''setmn''), (0x2217, ''lowast''), (0x2218, ''compfn''),
    (0x221A, ''sqrt''), (0x221D, ''prop''), (0x221E, ''infin''), (0x221F, ''angrt''),
    (0x2220, ''ang''), (0x2221, ''angmsd''), (0x2222, ''angsph''), (0x2223, ''mid''),
    (0x2224, ''nmid''), (0x2225, ''par''), (0x2226, ''npar''), (0x2227, ''and''),
    (0x2228, ''or''), (0x2229, ''cap''), (0x222A, ''cup''), (0x222B, ''int''),
    (0x222C, ''int''), (0x222D, ''tint''), (0x222E, ''oint''), (0x222F, ''conint''),
    (0x2230, ''cconint''), (0x2231, ''cwint''), (0x2232, ''cwconint''), (0x2233, ''awconint''),
    (0x2234, ''there4''), (0x2235, ''becaus''), (0x2236, ''ratio''), (0x2237, ''colon''),
    (0x2238, ''minusd''), (0x223A, ''mddot''), (0x223B, ''homtht''), (0x223C, ''sim''),
    (0x223D, ''bsim''), (0x223E, ''ac''), (0x223F, ''acd''), (0x2240, ''wr''),
    (0x2241, ''nsim''), (0x2242, ''esim''), (0x2243, ''sime''), (0x2244, ''nsime''),
    (0x2245, ''cong''), (0x2246, ''simne''), (0x2247, ''ncong''), (0x2248, ''ap''),
    (0x2249, ''nap''), (0x224A, ''ape''), (0x224B, ''apid''), (0x224C, ''bcong''),
    (0x224D, ''cupcap''), (0x224E, ''bump''), (0x224F, ''bumpe''), (0x2250, ''doteq''),
    (0x2251, ''edot''), (0x2252, ''efdot''), (0x2253, ''erdot''), (0x2254, ''assign''),
    (0x2255, ''ecolon''), (0x2256, ''ecir''), (0x2257, ''cire''), (0x2259, ''wedgeq''),
    (0x225A, ''veeeq''), (0x225C, ''trie''), (0x225F, ''equest''), (0x2260, ''ne''),
    (0x2261, ''equiv''), (0x2262, ''nequiv''), (0x2264, ''le''), (0x2265, ''ge''),
    (0x2266, ''le''), (0x2267, ''ge''), (0x2268, ''lne''), (0x2269, ''gne''),
    (0x226A, ''lt''), (0x226B, ''gt'')]"

definition runename_part3 :: "(rune \<times> string) list" where
  "runename_part3 = [
    (0x226C, ''twixt''), (0x226D, ''notcupcap''), (0x226E, ''nlt''), (0x226F, ''ngt''),
    (0x2270, ''nle''), (0x2271, ''nge''), (0x2272, ''lsim''), (0x2273, ''gsim''),
    (0x2274, ''nlsim''), (0x2275, ''ngsim''), (0x2276, ''lg''), (0x2277, ''gl''),
    (0x2278, ''ntlg''), (0x2279, ''ntgl''), (0x227A, ''pr''), (0x227B, ''sc''),
    (0x227C, ''prcue''), (0x227D, ''sccue''), (0x227E, ''prsim''), (0x227F, ''scsim''),
    (0x2280, ''npr''), (0x2281, ''nsc''), (0x2282, ''sub''), (0x2283, ''sup''),
    (0x2284, ''nsub''), (0x2285, ''nsup''), (0x2286, ''sube''), (0x2287, ''supe''),
    (0x2288, ''nsube''), (0x2289, ''nsupe''), (0x228A, ''subne''), (0x228B, ''supne''),
    (0x228D, ''cupdot''), (0x228E, ''uplus''), (0x228F, ''sqsub''), (0x2290, ''sqsup''),
    (0x2291, ''sqsube''), (0x2292, ''sqsupe''), (0x2293, ''sqcap''), (0x2294, ''sqcup''),
    (0x2295, ''oplus''), (0x2296, ''ominus''), (0x2297, ''otimes''), (0x2298, ''osol''),
    (0x2299, ''odot''), (0x229A, ''ocir''), (0x229B, ''oast''), (0x229D, ''odash''),
    (0x229E, ''plusb''), (0x229F, ''minusb''), (0x22A0, ''timesb''), (0x22A1, ''sdotb''),
    (0x22A2, ''vdash''), (0x22A3, ''dashv''), (0x22A4, ''top''), (0x22A5, ''bot''),
    (0x22A7, ''models''), (0x22A8, ''vdash''), (0x22A9, ''vdash''), (0x22AA, ''vvdash''),
    (0x22AB, ''vdash''), (0x22AC, ''nvdash''), (0x22AD, ''nvdash''), (0x22AE, ''nvdash''),
    (0x22AF, ''nvdash''), (0x22B0, ''prurel''), (0x22B2, ''vltri''), (0x22B3, ''vrtri''),
    (0x22B4, ''ltrie''), (0x22B5, ''rtrie''), (0x22B6, ''origof''), (0x22B7, ''imof''),
    (0x22B8, ''mumap''), (0x22B9, ''hercon''), (0x22BA, ''intcal''), (0x22BB, ''veebar''),
    (0x22BD, ''barvee''), (0x22BE, ''angrtvb''), (0x22BF, ''lrtri''), (0x22C0, ''wedge''),
    (0x22C1, ''vee''), (0x22C2, ''xcap''), (0x22C3, ''xcup''), (0x22C4, ''diam''),
    (0x22C5, ''sdot''), (0x22C6, ''star''), (0x22C7, ''divonx''), (0x22C8, ''bowtie''),
    (0x22C9, ''ltimes''), (0x22CA, ''rtimes'')]"

definition runename_part4 :: "(rune \<times> string) list" where
  "runename_part4 = [
    (0x22CB, ''lthree''), (0x22CC, ''rthree''), (0x22CD, ''bsime''), (0x22CE, ''cuvee''),
    (0x22CF, ''cuwed''), (0x22D0, ''sub''), (0x22D1, ''sup''), (0x22D2, ''cap''),
    (0x22D3, ''cup''), (0x22D4, ''fork''), (0x22D5, ''epar''), (0x22D6, ''ltdot''),
    (0x22D7, ''gtdot''), (0x22D8, ''ll''), (0x22D9, ''gg''), (0x22DA, ''leg''),
    (0x22DB, ''gel''), (0x22DE, ''cuepr''), (0x22DF, ''cuesc''), (0x22E0, ''nprcue''),
    (0x22E1, ''nsccue''), (0x22E2, ''nsqsube''), (0x22E3, ''nsqsupe''), (0x22E6, ''lnsim''),
    (0x22E7, ''gnsim''), (0x22E8, ''prnsim''), (0x22E9, ''scnsim''), (0x22EA, ''nltri''),
    (0x22EB, ''nrtri''), (0x22EC, ''nltrie''), (0x22ED, ''nrtrie''), (0x22EE, ''vellip''),
    (0x22EF, ''ctdot''), (0x22F0, ''utdot''), (0x22F1, ''dtdot''), (0x22F2, ''disin''),
    (0x22F3, ''isinsv''), (0x22F4, ''isins''), (0x22F5, ''isindot''), (0x22F6, ''notinvc''),
    (0x22F7, ''notinvb''), (0x22F9, ''isine''), (0x22FA, ''nisd''), (0x22FB, ''xnis''),
    (0x22FC, ''nis''), (0x22FD, ''notnivc''), (0x22FE, ''notnivb''), (0x2305, ''barwed''),
    (0x2306, ''barwed''), (0x2308, ''lceil''), (0x2309, ''rceil''), (0x230A, ''lfloor''),
    (0x230B, ''rfloor''), (0x230C, ''drcrop''), (0x230D, ''dlcrop''), (0x230E, ''urcrop''),
    (0x230F, ''ulcrop''), (0x2310, ''bnot''), (0x2312, ''profline''), (0x2313, ''profsurf''),
    (0x2315, ''telrec''), (0x2316, ''target''), (0x231C, ''ulcorn''), (0x231D, ''urcorn''),
    (0x231E, ''dlcorn''), (0x231F, ''drcorn''), (0x2322, ''frown''), (0x2323, ''smile''),
    (0x232D, ''cylcty''), (0x232E, ''profalar''), (0x2336, ''topbot''), (0x233D, ''ovbar''),
    (0x233F, ''solbar''), (0x237C, ''angzarr''), (0x23B0, ''lmoust''), (0x23B1, ''rmoust''),
    (0x23B4, ''tbrk''), (0x23B5, ''bbrk''), (0x23B6, ''bbrktbrk''), (0x23DC, ''overparenthesis''),
    (0x23DD, ''underparenthesis''), (0x23DE, ''overbrace''), (0x23DF, ''underbrace''), (0x23E2, ''trpezium''),
    (0x23E7, ''elinters''), (0x2423, ''blank''), (0x24C8, ''os''), (0x2500, ''boxh''),
    (0x2502, ''boxv''), (0x250C, ''boxdr'')]"

definition runename_part5 :: "(rune \<times> string) list" where
  "runename_part5 = [
    (0x2510, ''boxdl''), (0x2514, ''boxur''), (0x2518, ''boxul''), (0x251C, ''boxvr''),
    (0x2524, ''boxvl''), (0x252C, ''boxhd''), (0x2534, ''boxhu''), (0x253C, ''boxvh''),
    (0x2550, ''boxh''), (0x2551, ''boxv''), (0x2552, ''boxdr''), (0x2553, ''boxdr''),
    (0x2554, ''boxdr''), (0x2555, ''boxdl''), (0x2556, ''boxdl''), (0x2557, ''boxdl''),
    (0x2558, ''boxur''), (0x2559, ''boxur''), (0x255A, ''boxur''), (0x255B, ''boxul''),
    (0x255C, ''boxul''), (0x255D, ''boxul''), (0x255E, ''boxvr''), (0x255F, ''boxvr''),
    (0x2560, ''boxvr''), (0x2561, ''boxvl''), (0x2562, ''boxvl''), (0x2563, ''boxvl''),
    (0x2564, ''boxhd''), (0x2565, ''boxhd''), (0x2566, ''boxhd''), (0x2567, ''boxhu''),
    (0x2568, ''boxhu''), (0x2569, ''boxhu''), (0x256A, ''boxvh''), (0x256B, ''boxvh''),
    (0x256C, ''boxvh''), (0x2580, ''uhblk''), (0x2584, ''lhblk''), (0x2588, ''block''),
    (0x2591, ''blk14''), (0x2592, ''blk12''), (0x2593, ''blk34''), (0x25A1, ''squ''),
    (0x25AA, ''squf''), (0x25AB, ''emptyverysmallsquare''), (0x25AD, ''rect''), (0x25AE, ''marker''),
    (0x25B1, ''fltns''), (0x25B3, ''xutri''), (0x25B4, ''utrif''), (0x25B5, ''utri''),
    (0x25B8, ''rtrif''), (0x25B9, ''rtri''), (0x25BD, ''xdtri''), (0x25BE, ''dtrif''),
    (0x25BF, ''dtri''), (0x25C2, ''ltrif''), (0x25C3, ''ltri''), (0x25CA, ''loz''),
    (0x25CB, ''cir''), (0x25EC, ''tridot''), (0x25EF, ''xcirc''), (0x25F8, ''ultri''),
    (0x25F9, ''urtri''), (0x25FA, ''lltri''), (0x25FB, ''emptysmallsquare''), (0x25FC, ''filledsmallsquare''),
    (0x2605, ''starf''), (0x2606, ''star''), (0x260E, ''phone''), (0x2640, ''female''),
    (0x2642, ''male''), (0x2660, ''spades''), (0x2663, ''clubs''), (0x2665, ''hearts''),
    (0x2666, ''diams''), (0x266A, ''sung''), (0x266D, ''flat''), (0x266E, ''natur''),
    (0x266F, ''sharp''), (0x2713, ''check''), (0x2717, ''cross''), (0x2720, ''malt''),
    (0x2736, ''sext''), (0x2758, ''verticalseparator''), (0x2772, ''lbbrk''), (0x2773, ''rbbrk''),
    (0x27C8, ''bsolhsub''), (0x27C9, ''suphsol'')]"

definition runename_part6 :: "(rune \<times> string) list" where
  "runename_part6 = [
    (0x27E6, ''lobrk''), (0x27E7, ''robrk''), (0x27E8, ''lang''), (0x27E9, ''rang''),
    (0x27EA, ''lang''), (0x27EB, ''rang''), (0x27EC, ''loang''), (0x27ED, ''roang''),
    (0x27F5, ''xlarr''), (0x27F6, ''xrarr''), (0x27F7, ''xharr''), (0x27F8, ''xlarr''),
    (0x27F9, ''xrarr''), (0x27FA, ''xharr''), (0x27FC, ''xmap''), (0x27FF, ''dzigrarr''),
    (0x2902, ''nvlarr''), (0x2903, ''nvrarr''), (0x2904, ''nvharr''), (0x2905, ''map''),
    (0x290C, ''lbarr''), (0x290D, ''rbarr''), (0x290E, ''lbarr''), (0x290F, ''rbarr''),
    (0x2910, ''rbarr''), (0x2911, ''ddotrahd''), (0x2912, ''uparrowbar''), (0x2913, ''downarrowbar''),
    (0x2916, ''rarrtl''), (0x2919, ''latail''), (0x291A, ''ratail''), (0x291B, ''latail''),
    (0x291C, ''ratail''), (0x291D, ''larrfs''), (0x291E, ''rarrfs''), (0x291F, ''larrbfs''),
    (0x2920, ''rarrbfs''), (0x2923, ''nwarhk''), (0x2924, ''nearhk''), (0x2925, ''searhk''),
    (0x2926, ''swarhk''), (0x2927, ''nwnear''), (0x2928, ''toea''), (0x2929, ''tosa''),
    (0x292A, ''swnwar''), (0x2933, ''rarrc''), (0x2935, ''cudarrr''), (0x2936, ''ldca''),
    (0x2937, ''rdca''), (0x2938, ''cudarrl''), (0x2939, ''larrpl''), (0x293C, ''curarrm''),
    (0x293D, ''cularrp''), (0x2945, ''rarrpl''), (0x2948, ''harrcir''), (0x2949, ''uarrocir''),
    (0x294A, ''lurdshar''), (0x294B, ''ldrushar''), (0x294E, ''leftrightvector''), (0x294F, ''rightupdownvector''),
    (0x2950, ''downleftrightvector''), (0x2951, ''leftupdownvector''), (0x2952, ''leftvectorbar''), (0x2953, ''rightvectorbar''),
    (0x2954, ''rightupvectorbar''), (0x2955, ''rightdownvectorbar''), (0x2956, ''downleftvectorbar''), (0x2957, ''downrightvectorbar''),
    (0x2958, ''leftupvectorbar''), (0x2959, ''leftdownvectorbar''), (0x295A, ''leftteevector''), (0x295B, ''rightteevector''),
    (0x295C, ''rightupteevector''), (0x295D, ''rightdownteevector''), (0x295E, ''downleftteevector''), (0x295F, ''downrightteevector''),
    (0x2960, ''leftupteevector''), (0x2961, ''leftdownteevector''), (0x2962, ''lhar''), (0x2963, ''uhar''),
    (0x2964, ''rhar''), (0x2965, ''dhar''), (0x2966, ''luruhar''), (0x2967, ''ldrdhar''),
    (0x2968, ''ruluhar''), (0x2969, ''rdldhar''), (0x296A, ''lharul''), (0x296B, ''llhard''),
    (0x296C, ''rharul''), (0x296D, ''lrhard'')]"

definition runename_part7 :: "(rune \<times> string) list" where
  "runename_part7 = [
    (0x296E, ''udhar''), (0x296F, ''duhar''), (0x2970, ''roundimplies''), (0x2971, ''erarr''),
    (0x2972, ''simrarr''), (0x2973, ''larrsim''), (0x2974, ''rarrsim''), (0x2975, ''rarrap''),
    (0x2976, ''ltlarr''), (0x2978, ''gtrarr''), (0x2979, ''subrarr''), (0x297B, ''suplarr''),
    (0x297C, ''lfisht''), (0x297D, ''rfisht''), (0x297E, ''ufisht''), (0x297F, ''dfisht''),
    (0x2985, ''lopar''), (0x2986, ''ropar''), (0x298B, ''lbrke''), (0x298C, ''rbrke''),
    (0x298D, ''lbrkslu''), (0x298E, ''rbrksld''), (0x298F, ''lbrksld''), (0x2990, ''rbrkslu''),
    (0x2991, ''langd''), (0x2992, ''rangd''), (0x2993, ''lparlt''), (0x2994, ''rpargt''),
    (0x2995, ''gtlpar''), (0x2996, ''ltrpar''), (0x299A, ''vzigzag''), (0x299C, ''vangrt''),
    (0x299D, ''angrtvbd''), (0x29A4, ''ange''), (0x29A5, ''range''), (0x29A6, ''dwangle''),
    (0x29A7, ''uwangle''), (0x29A8, ''angmsdaa''), (0x29A9, ''angmsdab''), (0x29AA, ''angmsdac''),
    (0x29AB, ''angmsdad''), (0x29AC, ''angmsdae''), (0x29AD, ''angmsdaf''), (0x29AE, ''angmsdag''),
    (0x29AF, ''angmsdah''), (0x29B0, ''bemptyv''), (0x29B1, ''demptyv''), (0x29B2, ''cemptyv''),
    (0x29B3, ''raemptyv''), (0x29B4, ''laemptyv''), (0x29B5, ''ohbar''), (0x29B6, ''omid''),
    (0x29B7, ''opar''), (0x29B9, ''operp''), (0x29BB, ''olcross''), (0x29BC, ''odsold''),
    (0x29BE, ''olcir''), (0x29BF, ''ofcir''), (0x29C0, ''olt''), (0x29C1, ''ogt''),
    (0x29C2, ''cirscir''), (0x29C3, ''cire''), (0x29C4, ''solb''), (0x29C5, ''bsolb''),
    (0x29C9, ''boxbox''), (0x29CD, ''trisb''), (0x29CE, ''rtriltri''), (0x29CF, ''lefttrianglebar''),
    (0x29D0, ''righttrianglebar''), (0x29DC, ''iinfin''), (0x29DD, ''infintie''), (0x29DE, ''nvinfin''),
    (0x29E3, ''eparsl''), (0x29E4, ''smeparsl''), (0x29E5, ''eqvparsl''), (0x29EB, ''lozf''),
    (0x29F4, ''ruledelayed''), (0x29F6, ''dsol''), (0x2A00, ''xodot''), (0x2A01, ''xoplus''),
    (0x2A02, ''xotime''), (0x2A04, ''xuplus''), (0x2A06, ''xsqcup''), (0x2A0C, ''qint''),
    (0x2A0D, ''fpartint''), (0x2A10, ''cirfnint''), (0x2A11, ''awint''), (0x2A12, ''rppolint''),
    (0x2A13, ''scpolint''), (0x2A14, ''npolint'')]"

definition runename_part8 :: "(rune \<times> string) list" where
  "runename_part8 = [
    (0x2A15, ''pointint''), (0x2A16, ''quatint''), (0x2A17, ''intlarhk''), (0x2A22, ''pluscir''),
    (0x2A23, ''plusacir''), (0x2A24, ''simplus''), (0x2A25, ''plusdu''), (0x2A26, ''plussim''),
    (0x2A27, ''plustwo''), (0x2A29, ''mcomma''), (0x2A2A, ''minusdu''), (0x2A2D, ''loplus''),
    (0x2A2E, ''roplus''), (0x2A2F, ''cross''), (0x2A30, ''timesd''), (0x2A31, ''timesbar''),
    (0x2A33, ''smashp''), (0x2A34, ''lotimes''), (0x2A35, ''rotimes''), (0x2A36, ''otimesas''),
    (0x2A37, ''otimes''), (0x2A38, ''odiv''), (0x2A39, ''triplus''), (0x2A3A, ''triminus''),
    (0x2A3B, ''tritime''), (0x2A3C, ''iprod''), (0x2A3F, ''amalg''), (0x2A40, ''capdot''),
    (0x2A42, ''ncup''), (0x2A43, ''ncap''), (0x2A44, ''capand''), (0x2A45, ''cupor''),
    (0x2A46, ''cupcap''), (0x2A47, ''capcup''), (0x2A48, ''cupbrcap''), (0x2A49, ''capbrcup''),
    (0x2A4A, ''cupcup''), (0x2A4B, ''capcap''), (0x2A4C, ''ccups''), (0x2A4D, ''ccaps''),
    (0x2A50, ''ccupssm''), (0x2A53, ''and''), (0x2A54, ''or''), (0x2A55, ''andand''),
    (0x2A56, ''oror''), (0x2A57, ''orslope''), (0x2A58, ''andslope''), (0x2A5A, ''andv''),
    (0x2A5B, ''orv''), (0x2A5C, ''andd''), (0x2A5D, ''ord''), (0x2A5F, ''wedbar''),
    (0x2A66, ''sdote''), (0x2A6A, ''simdot''), (0x2A6D, ''congdot''), (0x2A6E, ''easter''),
    (0x2A6F, ''apacir''), (0x2A70, ''ape''), (0x2A71, ''eplus''), (0x2A72, ''pluse''),
    (0x2A73, ''esim''), (0x2A74, ''colone''), (0x2A75, ''equal''), (0x2A77, ''eddot''),
    (0x2A78, ''equivdd''), (0x2A79, ''ltcir''), (0x2A7A, ''gtcir''), (0x2A7B, ''ltquest''),
    (0x2A7C, ''gtquest''), (0x2A7D, ''les''), (0x2A7E, ''ges''), (0x2A7F, ''lesdot''),
    (0x2A80, ''gesdot''), (0x2A81, ''lesdoto''), (0x2A82, ''gesdoto''), (0x2A83, ''lesdotor''),
    (0x2A84, ''gesdotol''), (0x2A85, ''lap''), (0x2A86, ''gap''), (0x2A87, ''lne''),
    (0x2A88, ''gne''), (0x2A89, ''lnap''), (0x2A8A, ''gnap''), (0x2A8B, ''leg''),
    (0x2A8C, ''gel''), (0x2A8D, ''lsime''), (0x2A8E, ''gsime''), (0x2A8F, ''lsimg''),
    (0x2A90, ''gsiml''), (0x2A91, ''lge'')]"

definition runename_part9 :: "(rune \<times> string) list" where
  "runename_part9 = [
    (0x2A92, ''gle''), (0x2A93, ''lesges''), (0x2A94, ''gesles''), (0x2A95, ''els''),
    (0x2A96, ''egs''), (0x2A97, ''elsdot''), (0x2A98, ''egsdot''), (0x2A99, ''el''),
    (0x2A9A, ''eg''), (0x2A9D, ''siml''), (0x2A9E, ''simg''), (0x2A9F, ''simle''),
    (0x2AA0, ''simge''), (0x2AA1, ''lessless''), (0x2AA2, ''greatergreater''), (0x2AA4, ''glj''),
    (0x2AA5, ''gla''), (0x2AA6, ''ltcc''), (0x2AA7, ''gtcc''), (0x2AA8, ''lescc''),
    (0x2AA9, ''gescc''), (0x2AAA, ''smt''), (0x2AAB, ''lat''), (0x2AAC, ''smte''),
    (0x2AAD, ''late''), (0x2AAE, ''bumpe''), (0x2AAF, ''pre''), (0x2AB0, ''sce''),
    (0x2AB3, ''pre''), (0x2AB4, ''sce''), (0x2AB5, ''prne''), (0x2AB6, ''scne''),
    (0x2AB7, ''prap''), (0x2AB8, ''scap''), (0x2AB9, ''prnap''), (0x2ABA, ''scnap''),
    (0x2ABB, ''pr''), (0x2ABC, ''sc''), (0x2ABD, ''subdot''), (0x2ABE, ''supdot''),
    (0x2ABF, ''subplus''), (0x2AC0, ''supplus''), (0x2AC1, ''submult''), (0x2AC2, ''supmult''),
    (0x2AC3, ''subedot''), (0x2AC4, ''supedot''), (0x2AC5, ''sube''), (0x2AC6, ''supe''),
    (0x2AC7, ''subsim''), (0x2AC8, ''supsim''), (0x2ACB, ''subne''), (0x2ACC, ''supne''),
    (0x2ACF, ''csub''), (0x2AD0, ''csup''), (0x2AD1, ''csube''), (0x2AD2, ''csupe''),
    (0x2AD3, ''subsup''), (0x2AD4, ''supsub''), (0x2AD5, ''subsub''), (0x2AD6, ''supsup''),
    (0x2AD7, ''suphsub''), (0x2AD8, ''supdsub''), (0x2AD9, ''forkv''), (0x2ADA, ''topfork''),
    (0x2ADB, ''mlcp''), (0x2AE4, ''dashv''), (0x2AE6, ''vdashl''), (0x2AE7, ''barv''),
    (0x2AE8, ''vbar''), (0x2AE9, ''vbarv''), (0x2AEB, ''vbar''), (0x2AEC, ''not''),
    (0x2AED, ''bnot''), (0x2AEE, ''rnmid''), (0x2AEF, ''cirmid''), (0x2AF0, ''midcir''),
    (0x2AF1, ''topcir''), (0x2AF2, ''nhpar''), (0x2AF3, ''parsim''), (0x2AFD, ''parsl'')]"


definition runename_table :: "(rune \<times> string) list" where
  "runename_table = runename_part0 @ runename_part1 @ runename_part2 @ runename_part3 @
     runename_part4 @ runename_part5 @ runename_part6 @ runename_part7 @ runename_part8 @
     runename_part9"

definition runename :: "rune \<Rightarrow> gostring option" where
  "runename r = map_option runes (map_of runename_table r)"

subsection \<open>The unicode package\<close>

text \<open>
  \<^verbatim>\<open>unicode.IsNumber\<close>, \<^verbatim>\<open>unicode.IsLetter\<close> and \<^verbatim>\<open>unicode.ToLower\<close> belong to the Go
  standard library, not to this repository: they are parameters of the model.
\<close>

record unicode_pkg =
  IsNumber :: "rune \<Rightarrow> bool"
  IsLetter :: "rune \<Rightarrow> bool"
  ToLower :: "rune \<Rightarrow> rune"

definition alnum :: "unicode_pkg \<Rightarrow> rune \<Rightarrow> bool" where
  "alnum u r = (IsNumber u r \<or> IsLetter u r)"

text \<open>
  The three functions on the ASCII range, where they are given by the character
  classes \<^verbatim>\<open>0-9\<close>, \<^verbatim>\<open>A-Z\<close> and \<^verbatim>\<open>a-z\<close>. The examples below run on ASCII text only.
\<close>

definition ascii_unicode :: unicode_pkg where
  "ascii_unicode =
     \<lparr>IsNumber = (\<lambda>r. 0x30 \<le> r \<and> r \<le> 0x39),
      IsLetter = (\<lambda>r. (0x41 \<le> r \<and> r \<le> 0x5A) \<or> (0x61 \<le> r \<and> r \<le> 0x7A)),
      ToLower = (\<lambda>r. if 0x41 \<le> r \<and> r \<le> 0x5A then r + 0x20 else r)\<rparr>"

subsection \<open>Slugify\<close>

record slugify_state =
  cutdash :: bool
  emitdash :: bool
  slug_runes :: gostring

text \<open>One iteration of the loop of \<^verbatim>\<open>Slugify\<close>, on the rune \<open>r\<close>.\<close>

definition Slugify_step :: "unicode_pkg \<Rightarrow> slugify_state \<Rightarrow> rune \<Rightarrow> slugify_state" where
  "Slugify_step u st r =
     (if IsNumber u r \<or> IsLetter u r then
        \<lparr>cutdash = False, emitdash = False,
         slug_runes = (if emitdash st \<and> \<not> cutdash st then slug_runes st @ [dash] else slug_runes st)
                  @ [ToLower u r]\<rparr>
      else if r = slash \<or> r = equals then
        \<lparr>cutdash = True, emitdash = False, slug_runes = slug_runes st @ [r]\<rparr>
      else if r = dash \<or> r = comma \<or> r = period \<or> r = space \<or> r = lowbar then
        st\<lparr>emitdash := True\<rparr>
      else
        (case runename r of
           Some name \<Rightarrow>
             \<lparr>cutdash = False, emitdash = True,
              slug_runes = (if \<not> cutdash st then slug_runes st @ [dash] else slug_runes st) @ name\<rparr>
         | None \<Rightarrow> st\<lparr>emitdash := True\<rparr>))"

fun Slugify_loop :: "unicode_pkg \<Rightarrow> slugify_state \<Rightarrow> gostring \<Rightarrow> slugify_state" where
  "Slugify_loop u st [] = st"
| "Slugify_loop u st (r # rs) = Slugify_loop u (Slugify_step u st r) rs"

definition Slugify_init :: slugify_state where
  "Slugify_init = \<lparr>cutdash = True, emitdash = False, slug_runes = []\<rparr>"

definition Slugify :: "unicode_pkg \<Rightarrow> gostring \<Rightarrow> gostring" where
  "Slugify u s =
     (let st = Slugify_loop u Slugify_init s
      in if length (slug_runes st) = 0 then [dash] else slug_runes st)"

subsection \<open>ValidateSlug\<close>

datatype slug_error = SlugEmpty | SlugModified

definition ValidateSlug :: "unicode_pkg \<Rightarrow> gostring \<Rightarrow> slug_error option" where
  "ValidateSlug u sl =
     (if length sl = 0 then Some SlugEmpty
      else if sl \<noteq> Slugify u sl then Some SlugModified
      else None)"

section \<open>ditaconv: titelize\<close>

text \<open>
  Package ditaconv is the file src/unnamed/part_000. Its two regular expressions are
  modelled by the functions that match them at the head of a text.
\<close>

text \<open>
  \<^verbatim>\<open>lit c s\<close> reads the rune \<open>c\<close> at the head of \<open>s\<close>; \<^verbatim>\<open>opt_space\<close> is the greedy
  \<^verbatim>\<open> ?\<close> at the end of both expressions, which takes a space when there is one.
\<close>

definition lit :: "rune \<Rightarrow> gostring \<Rightarrow> gostring option" where
  "lit c s = (case s of [] \<Rightarrow> None | x # xs \<Rightarrow> if x = c then Some xs else None)"

definition opt_space :: "gostring \<Rightarrow> gostring" where
  "opt_space s = (case lit space s of Some rest \<Rightarrow> rest | None \<Rightarrow> s)"

text \<open>
  \<^verbatim>\<open> ?X ?\<close> anchored at the head of \<open>s\<close>, for a rune \<open>X\<close>: the space is tried first and,
  when \<open>X\<close> does not follow it, the match is tried again without the space.
  The result is the text after the match.
\<close>

definition sep_match :: "rune \<Rightarrow> gostring \<Rightarrow> gostring option" where
  "sep_match x s =
     (case (case lit space s of
              Some s1 \<Rightarrow> (case lit x s1 of Some s2 \<Rightarrow> Some s2 | None \<Rightarrow> lit x s)
            | None \<Rightarrow> lit x s) of
        Some s2 \<Rightarrow> Some (opt_space s2)
      | None \<Rightarrow> None)"

text \<open>\<^verbatim>\<open>rxOr = ` ?/ ?`\<close> at the head of \<open>s\<close>.\<close>

definition rxOr_match :: "gostring \<Rightarrow> gostring option" where
  "rxOr_match s = sep_match slash s"

text \<open>
  \<^verbatim>\<open>rxAnd = `(?:[^\^]) ?& ?`\<close> at the head of \<open>s\<close>: one rune other than \<^verbatim>\<open>^\<close>, which
  belongs to the match, then \<^verbatim>\<open> ?& ?\<close>.
\<close>

definition rxAnd_match :: "gostring \<Rightarrow> gostring option" where
  "rxAnd_match s =
     (case s of [] \<Rightarrow> None | c # cs \<Rightarrow> if c \<noteq> caret then sep_match amp cs else None)"

lemma lit_length: "lit c s = Some t \<Longrightarrow> length t < length s"
  by (auto simp: lit_def split: list.splits if_splits)

lemma opt_space_length: "length (opt_space s) \<le> length s"
  by (auto simp: opt_space_def dest: lit_length split: option.splits)

lemma sep_match_length:
  assumes "sep_match x s = Some t"
  shows "length t < length s"
proof -
  from assms obtain s2 where t: "t = opt_space s2"
    and s2: "(\<exists>s1. lit space s = Some s1 \<and> lit x s1 = Some s2) \<or> lit x s = Some s2"
    by (auto simp: sep_match_def split: option.splits)
  from s2 have "length s2 < length s"
  proof
    assume "\<exists>s1. lit space s = Some s1 \<and> lit x s1 = Some s2"
    then obtain s1 where "lit space s = Some s1" "lit x s1 = Some s2" by blast
    then have "length s1 < length s" "length s2 < length s1"
      by (simp_all add: lit_length)
    then show ?thesis by simp
  next
    assume "lit x s = Some s2"
    then show ?thesis by (rule lit_length)
  qed
  with opt_space_length [of s2] t show ?thesis by simp
qed

lemma rxOr_match_length: "rxOr_match s = Some t \<Longrightarrow> length t < length s"
  by (simp add: rxOr_match_def sep_match_length)

lemma rxAnd_match_length: "rxAnd_match s = Some t \<Longrightarrow> length t < length s"
  by (auto simp: rxAnd_match_def dest: sep_match_length split: list.splits if_splits)

text \<open>
  \<^verbatim>\<open>ReplaceAllString\<close>: the leftmost match is replaced and the search goes on after it;
  a rune at which no match starts is copied.
\<close>

function rxOr_ReplaceAll :: "gostring \<Rightarrow> gostring \<Rightarrow> gostring" where
  "rxOr_ReplaceAll [] repl = []"
| "rxOr_ReplaceAll (c # cs) repl =
     (case rxOr_match (c # cs) of
        Some rest \<Rightarrow> repl @ rxOr_ReplaceAll rest repl
      | None \<Rightarrow> c # rxOr_ReplaceAll cs repl)"
  by pat_completeness auto
termination
  by (relation "measure (\<lambda>(s, repl). length s)") (auto dest: rxOr_match_length)

function rxAnd_ReplaceAll :: "gostring \<Rightarrow> gostring \<Rightarrow> gostring" where
  "rxAnd_ReplaceAll [] repl = []"
| "rxAnd_ReplaceAll (c # cs) repl =
     (case rxAnd_match (c # cs) of
        Some rest \<Rightarrow> repl @ rxAnd_ReplaceAll rest repl
      | None \<Rightarrow> c # rxAnd_ReplaceAll cs repl)"
  by pat_completeness auto
termination
  by (relation "measure (\<lambda>(s, repl). length s)") (auto dest: rxAnd_match_length)

definition titelize :: "gostring \<Rightarrow> gostring" where
  "titelize title =
     (let title = rxOr_ReplaceAll title (runes '' or '');
          title = rxAnd_ReplaceAll title (runes '' and '')
      in title)"

section \<open>ditaconv: CreateMapping\<close>

text \<open>
  A topic is a \<^verbatim>\<open>*ditaindex.Topic\<close>: the maps of the Mapping hold the pointer, and the
  loops write \<^verbatim>\<open>Title\<close> and \<^verbatim>\<open>ShortTitle\<close> through it. The model keeps the pointer
  (\<open>topic_ref\<close>) apart from the struct it points to, in a heap. Of the struct, declared
  in package ditaindex, only the three fields that \<^verbatim>\<open>CreateMapping\<close> reads are kept.
\<close>

type_synonym topic_ref = nat

record Topic =
  Filename :: gostring
  Title :: gostring
  ShortTitle :: gostring

type_synonym topic_heap = "topic_ref \<Rightarrow> Topic"

text \<open>The two \<^verbatim>\<open>fmt.Errorf\<close> values, by their arguments in the order of the format.\<close>

datatype mapping_error =
    ClashingTitle gostring gostring gostring
  | TitleMissing gostring

record mapping_state =
  byslug :: "gostring \<rightharpoonup> topic_ref"
  bytopic :: "topic_ref \<rightharpoonup> gostring"
  errors :: "mapping_error list"
  heap :: topic_heap

text \<open>
  \<^verbatim>\<open>fedwiki.Slugify\<close> comes from the package github.com/egonelbre/fedwiki, outside this
  repository: it is the parameter \<open>slugify\<close>. The examples put \<^verbatim>\<open>kb.Slugify\<close> there, the
  slug function that the repository itself carries.
\<close>

text \<open>The body of the first loop (assign slugs to the topics), for one topic.\<close>

definition assign_slug ::
  "(gostring \<Rightarrow> gostring) \<Rightarrow> mapping_state \<Rightarrow> topic_ref \<Rightarrow> mapping_state" where
  "assign_slug slugify st topic =
     (let h1 = (heap st)(topic := (heap st topic)\<lparr>Title := titelize (Title (heap st topic))\<rparr>);
          h2 = h1(topic := (h1 topic)\<lparr>ShortTitle := titelize (ShortTitle (h1 topic))\<rparr>);
          st = st\<lparr>heap := h2\<rparr>;
          slug = slugify (Title (h2 topic))
      in case byslug st slug of
           Some other \<Rightarrow>
             st\<lparr>errors := errors st @
                [ClashingTitle (Title (h2 topic)) (Filename (h2 topic)) (Filename (h2 other))]\<rparr>
         | None \<Rightarrow>
             if Title (h2 topic) = [] then
               st\<lparr>errors := errors st @ [TitleMissing (Filename (h2 topic))]\<rparr>
             else
               st\<lparr>byslug := (byslug st)(slug \<mapsto> topic),
                  bytopic := (bytopic st)(topic \<mapsto> slug)\<rparr>)"

fun assign_slugs ::
  "(gostring \<Rightarrow> gostring) \<Rightarrow> mapping_state \<Rightarrow> topic_ref list \<Rightarrow> mapping_state" where
  "assign_slugs slugify st [] = st"
| "assign_slugs slugify st (topic # topics) =
     assign_slugs slugify (assign_slug slugify st topic) topics"

text \<open>
  The body of the second loop (promote to shorter titles), for the key \<open>prev\<close>. The loop
  ranges over \<^verbatim>\<open>byslug\<close> while it deletes from it and inserts into it: Go produces the
  keys in an unspecified order, does not produce an entry removed before it is reached,
  and may or may not produce an entry created during the loop. The sequence of keys is
  therefore an argument of the model, and a key with no entry when its turn comes is
  passed over.
\<close>

definition promote ::
  "(gostring \<Rightarrow> gostring) \<Rightarrow> mapping_state \<Rightarrow> gostring \<Rightarrow> mapping_state" where
  "promote slugify st prev =
     (case byslug st prev of
        None \<Rightarrow> st
      | Some topic \<Rightarrow>
          if ShortTitle (heap st topic) = [] \<or>
             len (Title (heap st topic)) \<le> len (ShortTitle (heap st topic))
          then st
          else
            let slug = slugify (ShortTitle (heap st topic))
            in if byslug st slug \<noteq> None then st
               else
                 let h1 = (heap st)(topic := (heap st topic)\<lparr>Title := ShortTitle (heap st topic)\<rparr>);
                     h2 = h1(topic := (h1 topic)\<lparr>ShortTitle := []\<rparr>)
                 in st\<lparr>heap := h2,
                       byslug := ((byslug st)(prev := None))(slug \<mapsto> topic),
                       bytopic := (bytopic st)(topic \<mapsto> slug)\<rparr>)"

fun promotes ::
  "(gostring \<Rightarrow> gostring) \<Rightarrow> mapping_state \<Rightarrow> gostring list \<Rightarrow> mapping_state" where
  "promotes slugify st [] = st"
| "promotes slugify st (prev # keys) = promotes slugify (promote slugify st prev) keys"

text \<open>
  The Mapping that is returned. \<^verbatim>\<open>Index\<close>, \<^verbatim>\<open>Topics\<close> and \<^verbatim>\<open>Rules\<close> are the index
  that was passed in, its topics and the constant \<^verbatim>\<open>NewHTMLRules()\<close>; the loops read
  none of them again.
\<close>

record Mapping =
  Topics :: "topic_ref list"
  BySlug :: "gostring \<rightharpoonup> topic_ref"
  ByTopic :: "topic_ref \<rightharpoonup> gostring"

definition mapping_init :: "topic_heap \<Rightarrow> mapping_state" where
  "mapping_init h = \<lparr>byslug = Map.empty, bytopic = Map.empty, errors = [], heap = h\<rparr>"

text \<open>
  \<open>topics\<close> are the values of \<^verbatim>\<open>index.Topics\<close> in the order in which the first loop
  meets them, \<open>keys\<close> the keys that the second loop meets, and \<open>h\<close> the heap at the call.
  The result is the Mapping, the errors and the heap at the return.
\<close>

definition CreateMapping ::
  "(gostring \<Rightarrow> gostring) \<Rightarrow> topic_heap \<Rightarrow> topic_ref list \<Rightarrow> gostring list
     \<Rightarrow> Mapping \<times> mapping_error list \<times> topic_heap" where
  "CreateMapping slugify h topics keys =
     (let st1 = assign_slugs slugify (mapping_init h) topics;
          st2 = promotes slugify st1 keys
      in (\<lparr>Topics = topics, BySlug = byslug st2, ByTopic = bytopic st2\<rparr>, errors st2, heap st2))"

section \<open>module/dita/convert.go\<close>

text \<open>
  This file compares, cuts and joins strings bytewise, so its strings are modelled as
  \<open>string\<close>. The topic here is a \<^verbatim>\<open>*ditaconvert.Topic\<close>; the fields that the file reads
  are kept, \<^verbatim>\<open>Original\<close> being a pointer that may be nil, to the parsed topic of which
  only the short description is read.
\<close>

type_synonym original = string

record dita_topic =
  topic_Title :: string
  topic_Modified :: nat
  topic_Synopsis :: string
  topic_Raw :: string
  topic_Original :: "original option"

type_synonym dita_heap = "topic_ref \<Rightarrow> dita_topic"

text \<open>The two diagnostics that \<^verbatim>\<open>ResolveLinkInfo\<close> appends, by the arguments of the format.\<close>

datatype diagnostic =
    TopicNotFound string string string
  | TitleNotExtracted string string string string

record ditaconvert_Context =
  Index_Topics :: "string \<rightharpoonup> topic_ref"
  DecodingPath :: string
  Errors :: "diagnostic list"
  Output :: string

record PageConversion =
  Mapping_ByTopic :: "topic_ref \<rightharpoonup> string"
  conv_Slug :: string
  conv_Index :: "string \<rightharpoonup> topic_ref"
  conv_Topic :: topic_ref
  Context :: ditaconvert_Context

text \<open>
  What the file calls and the repository does not define: the functions of the package
  github.com/raintreeinc/ditaconvert, \<^verbatim>\<open>path.Dir\<close> and \<^verbatim>\<open>path.Join\<close> of the standard
  library, and \<^verbatim>\<open>RelatedLinksAsHTML\<close> of the embedded \<^verbatim>\<open>*Conversion\<close>. \<^verbatim>\<open>ExtractTitle\<close>
  returns the title and the error, if any; \<^verbatim>\<open>Run\<close> returns the fatal error, if any,
  and works on the conversion, whose callbacks it calls and whose context it writes.
\<close>

record externals =
  SplitLink :: "string \<Rightarrow> string \<times> string"
  CanonicalPath :: "string \<Rightarrow> string"
  ExtractTitle :: "string \<Rightarrow> string \<Rightarrow> string \<times> string option"
  ShortDesc_Text :: "original \<Rightarrow> string"
  path_Dir :: "string \<Rightarrow> string"
  path_Join :: "string \<Rightarrow> string \<Rightarrow> string"
  NewConversion :: "(string \<rightharpoonup> topic_ref) \<Rightarrow> topic_ref \<Rightarrow> ditaconvert_Context"
  Run :: "PageConversion \<Rightarrow> string option \<times> PageConversion"
  RelatedLinksAsHTML :: "PageConversion \<Rightarrow> string"

definition HasPrefix :: "string \<Rightarrow> string \<Rightarrow> bool" where
  "HasPrefix s prefix = (take (length prefix) s = prefix)"

subsection \<open>ResolveLinkInfo\<close>

text \<open>
  The result is \<^verbatim>\<open>(href, title, synopsis, internal)\<close> and the conversion, whose context
  has the diagnostics appended.
\<close>

definition add_error :: "PageConversion \<Rightarrow> diagnostic \<Rightarrow> PageConversion" where
  "add_error conv e = conv\<lparr>Context := (Context conv)\<lparr>Errors := Errors (Context conv) @ [e]\<rparr>\<rparr>"

definition ResolveLinkInfo ::
  "externals \<Rightarrow> dita_heap \<Rightarrow> PageConversion \<Rightarrow> string
     \<Rightarrow> (string \<times> string \<times> string \<times> bool) \<times> PageConversion" where
  "ResolveLinkInfo ext h conv url =
     (if HasPrefix url ''http:'' \<or> HasPrefix url ''https:'' then ((url, [], [], False), conv)
      else
        let (url, selector) = SplitLink ext url
        in if url = [] then ((''#'' @ selector, [], [], True), conv)
           else
             let name = (if url \<noteq> []
                         then path_Join ext (path_Dir ext (DecodingPath (Context conv))) url
                         else DecodingPath (Context conv))
             in case Index_Topics (Context conv) (CanonicalPath ext name) of
                  None \<Rightarrow> (([], [], [], False), add_error conv (TopicNotFound name url selector))
                | Some topic \<Rightarrow>
                    let (title, conv) =
                          (if selector \<noteq> [] then
                             (case ExtractTitle ext (topic_Raw (h topic)) selector of
                                (title, Some err) \<Rightarrow>
                                  (title, add_error conv (TitleNotExtracted name url selector err))
                              | (title, None) \<Rightarrow> (title, conv))
                           else ([], conv));
                        (title, synopsis) =
                          (case topic_Original (h topic) of
                             Some orig \<Rightarrow>
                               if title = [] then
                                 (topic_Title (h topic),
                                  if selector = [] then ShortDesc_Text ext orig else [])
                               else (title, [])
                           | None \<Rightarrow> (title, []))
                    in case Mapping_ByTopic conv topic of
                         None \<Rightarrow> (([], title, synopsis, False), conv)
                       | Some slug \<Rightarrow>
                           if selector \<noteq> [] then ((slug @ ''#'' @ selector, title, synopsis, True), conv)
                           else ((slug, title, synopsis, True), conv))"

subsection \<open>Convert\<close>

text \<open>
  A page and the items of its story. \<^verbatim>\<open>kb.HTML\<close> makes an item of type \<^verbatim>\<open>html\<close> with a
  fresh id; the two ids that \<^verbatim>\<open>NewID\<close> draws are arguments of the model.
\<close>

record item =
  item_type :: string
  item_id :: string
  item_text :: string

record Page =
  page_Slug :: string
  page_Title :: string
  page_Modified :: nat
  page_Synopsis :: string
  Story :: "item list"

definition HTML :: "string \<Rightarrow> string \<Rightarrow> item" where
  "HTML new_id txt = \<lparr>item_type = ''html'', item_id = new_id, item_text = txt\<rparr>"

text \<open>
  The result is \<^verbatim>\<open>(page, errs, fatal)\<close>; a nil slice is the empty list. The callbacks
  \<^verbatim>\<open>ToSlug\<close> and \<^verbatim>\<open>InlineImage\<close> are stored in the rules of the context before the run;
  they are methods of the conversion that \<^verbatim>\<open>Run\<close> is given.
\<close>

definition Convert ::
  "externals \<Rightarrow> dita_heap \<Rightarrow> PageConversion \<Rightarrow> string \<Rightarrow> string
     \<Rightarrow> Page \<times> diagnostic list \<times> string option" where
  "Convert ext h conversion id1 id2 =
     (let conversion = conversion\<lparr>Context := NewConversion ext (conv_Index conversion) (conv_Topic conversion)\<rparr>;
          topic = h (conv_Topic conversion);
          page = \<lparr>page_Slug = conv_Slug conversion, page_Title = topic_Title topic,
                  page_Modified = topic_Modified topic, page_Synopsis = topic_Synopsis topic,
                  Story = []\<rparr>
      in case Run ext conversion of
           (Some err, conversion) \<Rightarrow> (page, [], Some err)
         | (None, conversion) \<Rightarrow>
             (page\<lparr>Story := Story page @
                  [HTML id1 (Output (Context conversion)),
                   HTML id2 (RelatedLinksAsHTML ext conversion)]\<rparr>,
              Errors (Context conversion), None))"

subsection \<open>The externals of the examples\<close>

text \<open>
  A model of \<^verbatim>\<open>path.Clean\<close>, \<^verbatim>\<open>path.Dir\<close> and \<^verbatim>\<open>path.Join\<close> after the documentation of
  Go's package path, for slash-separated paths: empty and \<^verbatim>\<open>.\<close> elements are dropped, an
  inner \<^verbatim>\<open>..\<close> takes away the element before it, \<^verbatim>\<open>..\<close> at the root is dropped, and the
  empty result is \<^verbatim>\<open>.\<close>.
\<close>

fun split_at :: "char \<Rightarrow> string \<Rightarrow> string \<Rightarrow> string list" where
  "split_at c acc [] = [rev acc]"
| "split_at c acc (x # xs) = (if x = c then rev acc # split_at c [] xs else split_at c (x # acc) xs)"

fun clean_elems :: "bool \<Rightarrow> string list \<Rightarrow> string list \<Rightarrow> string list" where
  "clean_elems rooted stack [] = rev stack"
| "clean_elems rooted stack (e # es) =
     (if e = [] \<or> e = ''.'' then clean_elems rooted stack es
      else if e = ''..'' then
        (case stack of
           [] \<Rightarrow> if rooted then clean_elems rooted [] es else clean_elems rooted [e] es
         | prev # below \<Rightarrow>
             if prev = ''..'' then clean_elems rooted (e # stack) es
             else clean_elems rooted below es)
      else clean_elems rooted (e # stack) es)"

fun join_slash :: "string list \<Rightarrow> string" where
  "join_slash [] = []"
| "join_slash [e] = e"
| "join_slash (e # es) = e @ ''/'' @ join_slash es"

definition model_Clean :: "string \<Rightarrow> string" where
  "model_Clean p =
     (let rooted = (take 1 p = ''/'');
          s = join_slash (clean_elems rooted [] (split_at CHR ''/'' [] p))
      in if rooted then ''/'' @ s else if s = [] then ''.'' else s)"

definition model_Dir :: "string \<Rightarrow> string" where
  "model_Dir p = model_Clean (rev (dropWhile (\<lambda>c. c \<noteq> CHR ''/'') (rev p)))"

definition model_Join :: "string \<Rightarrow> string \<Rightarrow> string" where
  "model_Join a b =
     (if a = [] \<and> b = [] then []
      else if a = [] then model_Clean b
      else if b = [] then model_Clean a
      else model_Clean (a @ ''/'' @ b))"

text \<open>A reference is cut at its first \<^verbatim>\<open>#\<close>; the selector is the part after it.\<close>

definition model_SplitLink :: "string \<Rightarrow> string \<times> string" where
  "model_SplitLink url =
     (takeWhile (\<lambda>c. c \<noteq> CHR ''#'') url, drop 1 (dropWhile (\<lambda>c. c \<noteq> CHR ''#'') url))"

text \<open>
  Modelled from the spec: the tokens of a topic, the stack of open tags and the rule
  table of the streaming rewriter, which is not under src/.
\<close>

datatype token = StartElement string | EndElement string | CharData string

datatype frame = Emitted string string | Unwrapped string | Removed string

record Rules =
  Translate :: "string \<rightharpoonup> string"
  Remove :: "string \<Rightarrow> bool"
  Unwrap :: "string \<Rightarrow> bool"

fun frame_name :: "frame \<Rightarrow> string" where
  "frame_name (Emitted n m) = n"
| "frame_name (Unwrapped n) = n"
| "frame_name (Removed n) = n"

fun in_removed :: "frame list \<Rightarrow> bool" where
  "in_removed (Removed n # fs) = True"
| "in_removed fs = False"

text \<open>
  Modelled from the spec: the streaming run of the rewriter (\<^verbatim>\<open>Context.Run\<close> of the
  conversion package), which is not under src/. One pass over the tokens with the stack
  of open tags: a tag marked for removal is dropped with its subtree, an unwrapped tag
  is dropped and its children stay, any other tag is emitted under its translated name;
  character data passes through outside removed subtrees; an end tag that does not match
  the open tag is a fatal error, and no partial fragment is returned.
\<close>

fun run_tokens :: "Rules \<Rightarrow> frame list \<Rightarrow> string \<Rightarrow> token list \<Rightarrow> string + string" where
  "run_tokens r fs out [] = (if fs = [] then Inr out else Inl ''unexpected EOF'')"
| "run_tokens r fs out (StartElement n # ts) =
     (if in_removed fs \<or> Remove r n then run_tokens r (Removed n # fs) out ts
      else if Unwrap r n then run_tokens r (Unwrapped n # fs) out ts
      else
        let m = (case Translate r n of Some m \<Rightarrow> m | None \<Rightarrow> n)
        in run_tokens r (Emitted n m # fs) (out @ ''<'' @ m @ ''>'') ts)"
| "run_tokens r fs out (EndElement n # ts) =
     (case fs of
        [] \<Rightarrow> Inl (''unmatched end tag '' @ n)
      | f # fs' \<Rightarrow>
          if frame_name f \<noteq> n then Inl (''unmatched end tag '' @ n)
          else
            (case f of
               Emitted n' m \<Rightarrow> run_tokens r fs' (out @ ''</'' @ m @ ''>'') ts
             | Unwrapped n' \<Rightarrow> run_tokens r fs' out ts
             | Removed n' \<Rightarrow> run_tokens r fs' out ts))"
| "run_tokens r fs out (CharData s # ts) =
     (if in_removed fs then run_tokens r fs out ts else run_tokens r fs (out @ s) ts)"

definition model_Run :: "Rules \<Rightarrow> token list \<Rightarrow> PageConversion \<Rightarrow> string option \<times> PageConversion" where
  "model_Run r ts conv =
     (case run_tokens r [] [] ts of
        Inl fatal \<Rightarrow> (Some fatal, conv)
      | Inr out \<Rightarrow> (None, conv\<lparr>Context := (Context conv)\<lparr>Output := out\<rparr>\<rparr>))"

definition example_rules :: Rules where
  "example_rules =
     \<lparr>Translate = [''b'' \<mapsto> ''strong''], Remove = (\<lambda>n. n = ''x''), Unwrap = (\<lambda>n. n = ''y'')\<rparr>"

definition example_externals :: "token list \<Rightarrow> externals" where
  "example_externals ts =
     \<lparr>SplitLink = model_SplitLink, CanonicalPath = (\<lambda>p. p),
      ExtractTitle = (\<lambda>raw selector. ([], Some ''no title'')),
      ShortDesc_Text = (\<lambda>orig. orig),
      path_Dir = model_Dir, path_Join = model_Join,
      NewConversion = (\<lambda>index topic.
        \<lparr>Index_Topics = index, DecodingPath = ''sub/b.xml'', Errors = [], Output = []\<rparr>),
      Run = model_Run example_rules ts,
      RelatedLinksAsHTML = (\<lambda>conv. [])\<rparr>"

text \<open>
  The topics \<^verbatim>\<open>A\<close> (path \<^verbatim>\<open>a.xml\<close>, slug \<^verbatim>\<open>alpha\<close>) and \<^verbatim>\<open>B\<close> (path \<^verbatim>\<open>sub/b.xml\<close>, slug
  \<^verbatim>\<open>beta\<close>), and the conversion of \<^verbatim>\<open>B\<close>.
\<close>

definition example_topics :: dita_heap where
  "example_topics =
     (\<lambda>_. \<lparr>topic_Title = [], topic_Modified = 0, topic_Synopsis = [], topic_Raw = [],
            topic_Original = None\<rparr>)
       (20 := \<lparr>topic_Title = ''A'', topic_Modified = 0, topic_Synopsis = ''about A'',
               topic_Raw = [], topic_Original = Some ''about A''\<rparr>,
        21 := \<lparr>topic_Title = ''B'', topic_Modified = 0, topic_Synopsis = ''about B'',
               topic_Raw = [], topic_Original = Some ''about B''\<rparr>)"

definition example_index :: "string \<rightharpoonup> topic_ref" where
  "example_index = [''a.xml'' \<mapsto> 20, ''sub/b.xml'' \<mapsto> 21]"

definition example_conversion :: PageConversion where
  "example_conversion =
     \<lparr>Mapping_ByTopic = [20 \<mapsto> ''alpha'', 21 \<mapsto> ''beta''], conv_Slug = ''beta'',
      conv_Index = example_index, conv_Topic = 21,
      Context = \<lparr>Index_Topics = example_index, DecodingPath = ''sub/b.xml'', Errors = [],
                 Output = []\<rparr>\<rparr>"

section \<open>Example corpora\<close>

text \<open>\<^verbatim>\<open>kb.Slugify\<close> on ASCII text, in the place of \<^verbatim>\<open>fedwiki.Slugify\<close>.\<close>

definition kb_Slugify :: "gostring \<Rightarrow> gostring" where
  "kb_Slugify = Slugify ascii_unicode"

definition mk_topic :: "string \<Rightarrow> string \<Rightarrow> string \<Rightarrow> Topic" where
  "mk_topic file title short = \<lparr>Filename = runes file, Title = runes title, ShortTitle = runes short\<rparr>"

text \<open>
  Four topics: the titles of the first two normalize to the same text, the last two have
  the same short title.
\<close>

definition corpus :: topic_heap where
  "corpus =
     (\<lambda>_. mk_topic [] [] [])
       (10 := mk_topic ''a.xml'' ''Setup / Install'' [],
        11 := mk_topic ''b.xml'' ''Setup or Install'' [],
        12 := mk_topic ''c.xml'' ''Introduction'' ''Intro'',
        13 := mk_topic ''d.xml'' ''Overview of Intro'' ''Intro'')"

text \<open>A title that slugifies to \<^verbatim>\<open>"-"\<close>, and an empty title.\<close>

definition corpus_empty :: topic_heap where
  "corpus_empty =
     (\<lambda>_. mk_topic [] [] [])
       (10 := mk_topic ''a.xml'' ''...'' [],
        11 := mk_topic ''b.xml'' [] [])"

text \<open>
  Two topics with the same title, the first with a short title; and two topics without a
  title.
\<close>

definition corpus_clash :: topic_heap where
  "corpus_clash =
     (\<lambda>_. mk_topic [] [] [])
       (10 := mk_topic ''a.xml'' ''Setup Guide'' ''Setup'',
        11 := mk_topic ''b.xml'' ''Setup Guide'' [],
        12 := mk_topic ''c.xml'' [] [],
        13 := mk_topic ''d.xml'' [] [])"

section \<open>Notions of the proofs\<close>

text \<open>The runes of which the names in \<^verbatim>\<open>runename\<close> are made.\<close>

definition plain_char :: "char \<Rightarrow> bool" where
  "plain_char c = (c \<in> set ''abcdefghijklmnopqrstuvwxyz0123456789'')"

definition plain_name :: "string \<Rightarrow> bool" where
  "plain_name v = (v \<noteq> [] \<and> list_all plain_char v)"

text \<open>
  A rune that leaves no trace in the slug: \<^verbatim>\<open>Slugify\<close> only sets \<^verbatim>\<open>emitdash\<close> on it.
\<close>

definition no_slug_repr :: "unicode_pkg \<Rightarrow> rune \<Rightarrow> bool" where
  "no_slug_repr u r =
     (\<not> IsNumber u r \<and> \<not> IsLetter u r \<and> r \<noteq> slash \<and> r \<noteq> equals \<and>
      (r = dash \<or> r = comma \<or> r = period \<or> r = space \<or> r = lowbar \<or> runename r = None))"

text \<open>What the proof of idempotence takes from the unicode package.\<close>

definition unicode_facts :: "unicode_pkg \<Rightarrow> bool" where
  "unicode_facts u =
     ((\<forall>r. alnum u r \<longrightarrow> alnum u (ToLower u r) \<and> ToLower u (ToLower u r) = ToLower u r) \<and>
      (\<forall>c\<in>set ''abcdefghijklmnopqrstuvwxyz0123456789''.
         alnum u (of_char c) \<and> ToLower u (of_char c) = of_char c) \<and>
      \<not> alnum u dash)"

text \<open>
  Running \<^verbatim>\<open>Slugify\<close> on the slug built so far builds it again and ends with the same
  \<^verbatim>\<open>cutdash\<close>.
\<close>

definition second_pass :: "unicode_pkg \<Rightarrow> slugify_state \<Rightarrow> bool" where
  "second_pass u st =
     (Slugify_loop u Slugify_init (slug_runes st) =
        \<lparr>cutdash = cutdash st, emitdash = False, slug_runes = slug_runes st\<rparr>)"

text \<open>
  The state of a topic after the first loop has met it: both titles are normalized, the
  file name is as before.
\<close>

definition normalized :: "Topic \<Rightarrow> Topic" where
  "normalized tp = tp\<lparr>Title := titelize (Title tp), ShortTitle := titelize (ShortTitle tp)\<rparr>"

text \<open>
  The two maps are inverse to each other: every entry of \<^verbatim>\<open>BySlug\<close> has its reverse in
  \<^verbatim>\<open>ByTopic\<close> and every entry of \<^verbatim>\<open>ByTopic\<close> its reverse in \<^verbatim>\<open>BySlug\<close>.
\<close>

definition inverse_maps :: "(gostring \<rightharpoonup> topic_ref) \<Rightarrow> (topic_ref \<rightharpoonup> gostring) \<Rightarrow> bool" where
  "inverse_maps bs bt =
     ((\<forall>s t. bs s = Some t \<longrightarrow> bt t = Some s) \<and> (\<forall>t s. bt t = Some s \<longrightarrow> bs s = Some t))"

section \<open>Lemmas about kb/slug.go\<close>

subsection \<open>The names of the table\<close>

lemma plain_chars:
  "plain_char CHR ''a''" "plain_char CHR ''b''" "plain_char CHR ''c''" "plain_char CHR ''d''"
  "plain_char CHR ''e''" "plain_char CHR ''f''" "plain_char CHR ''g''" "plain_char CHR ''h''"
  "plain_char CHR ''i''" "plain_char CHR ''j''" "plain_char CHR ''k''" "plain_char CHR ''l''"
  "plain_char CHR ''m''" "plain_char CHR ''n''" "plain_char CHR ''o''" "plain_char CHR ''p''"
  "plain_char CHR ''q''" "plain_char CHR ''r''" "plain_char CHR ''s''" "plain_char CHR ''t''"
  "plain_char CHR ''u''" "plain_char CHR ''v''" "plain_char CHR ''w''" "plain_char CHR ''x''"
  "plain_char CHR ''y''" "plain_char CHR ''z''" "plain_char CHR ''0''" "plain_char CHR ''1''"
  "plain_char CHR ''2''" "plain_char CHR ''3''" "plain_char CHR ''4''" "plain_char CHR ''5''"
  "plain_char CHR ''6''" "plain_char CHR ''7''" "plain_char CHR ''8''" "plain_char CHR ''9''"
  by (simp_all add: plain_char_def)

lemma runename_part0_plain: "list_all (\<lambda>(k, v). plain_name v) runename_part0"
  by (simp only: runename_part0_def list.pred_inject case_prod_conv plain_name_def
      plain_chars list.distinct simp_thms)

lemma runename_part1_plain: "list_all (\<lambda>(k, v). plain_name v) runename_part1"
  by (simp only: runename_part1_def list.pred_inject case_prod_conv plain_name_def
      plain_chars list.distinct simp_thms)

lemma runename_part2_plain: "list_all (\<lambda>(k, v). plain_name v) runename_part2"
  by (simp only: runename_part2_def list.pred_inject case_prod_conv plain_name_def
      plain_chars list.distinct simp_thms)

lemma runename_part3_plain: "list_all (\<lambda>(k, v). plain_name v) runename_part3"
  by (simp only: runename_part3_def list.pred_inject case_prod_conv plain_name_def
      plain_chars list.distinct simp_thms)

lemma runename_part4_plain: "list_all (\<lambda>(k, v). plain_name v) runename_part4"
  by (simp only: runename_part4_def list.pred_inject case_prod_conv plain_name_def
      plain_chars list.distinct simp_thms)

lemma runename_part5_plain: "list_all (\<lambda>(k, v). plain_name v) runename_part5"
  by (simp only: runename_part5_def list.pred_inject case_prod_conv plain_name_def
      plain_chars list.distinct simp_thms)

lemma runename_part6_plain: "list_all (\<lambda>(k, v). plain_name v) runename_part6"
  by (simp only: runename_part6_def list.pred_inject case_prod_conv plain_name_def
      plain_chars list.distinct simp_thms)

lemma runename_part7_plain: "list_all (\<lambda>(k, v). plain_name v) runename_part7"
  by (simp only: runename_part7_def list.pred_inject case_prod_conv plain_name_def
      plain_chars list.distinct simp_thms)

lemma runename_part8_plain: "list_all (\<lambda>(k, v). plain_name v) runename_part8"
  by (simp only: runename_part8_def list.pred_inject case_prod_conv plain_name_def
      plain_chars list.distinct simp_thms)

lemma runename_part9_plain: "list_all (\<lambda>(k, v). plain_name v) runename_part9"
  by (simp only: runename_part9_def list.pred_inject case_prod_conv plain_name_def
      plain_chars list.distinct simp_thms)

lemma runename_table_plain: "list_all (\<lambda>(k, v). plain_name v) runename_table"
  unfolding runename_table_def list_all_append
  by (intro conjI runename_part0_plain runename_part1_plain runename_part2_plain
      runename_part3_plain runename_part4_plain runename_part5_plain runename_part6_plain
      runename_part7_plain runename_part8_plain runename_part9_plain)

lemma runename_plain:
  assumes "runename r = Some name"
  obtains v where "name = runes v" and "plain_name v"
proof -
  from assms obtain v where v: "map_of runename_table r = Some v" and n: "name = runes v"
    by (auto simp: runename_def)
  from v have "(r, v) \<in> set runename_table" by (rule map_of_SomeD)
  with runename_table_plain have "plain_name v"
    by (auto simp: list_all_iff)
  with n show thesis by (rule that)
qed

subsection \<open>The loop of Slugify\<close>

lemma Slugify_loop_append:
  "Slugify_loop u st (xs @ ys) = Slugify_loop u (Slugify_loop u st xs) ys"
  by (induction xs arbitrary: st) simp_all

lemma Slugify_step_no_repr:
  "no_slug_repr u r \<Longrightarrow> slug_runes (Slugify_step u st r) = slug_runes st"
  by (auto simp: no_slug_repr_def Slugify_step_def)

lemma Slugify_loop_no_repr:
  "\<forall>r\<in>set s. no_slug_repr u r \<Longrightarrow> slug_runes (Slugify_loop u st s) = slug_runes st"
  by (induction s arbitrary: st) (simp_all add: Slugify_step_no_repr)

lemma Slugify_not_Nil: "Slugify u s \<noteq> []"
  by (simp add: Slugify_def Let_def)

lemma Slugify_only_dash:
  "\<forall>r\<in>set s. no_slug_repr u r \<Longrightarrow> Slugify u s = [dash]"
  by (simp add: Slugify_def Let_def Slugify_loop_no_repr Slugify_init_def)

lemma step_alnum:
  "alnum u r \<Longrightarrow> Slugify_step u st r =
     \<lparr>cutdash = False, emitdash = False,
      slug_runes = (if emitdash st \<and> \<not> cutdash st then slug_runes st @ [dash] else slug_runes st)
               @ [ToLower u r]\<rparr>"
  by (simp add: Slugify_step_def alnum_def)

lemma step_dash:
  "\<not> alnum u dash \<Longrightarrow> Slugify_step u st dash = st\<lparr>emitdash := True\<rparr>"
  by (simp add: Slugify_step_def alnum_def)

lemma loop_plain:
  assumes "\<forall>c\<in>set v. alnum u (of_char c) \<and> ToLower u (of_char c) = of_char c"
  shows "Slugify_loop u \<lparr>cutdash = False, emitdash = False, slug_runes = sl\<rparr> (runes v) =
           \<lparr>cutdash = False, emitdash = False, slug_runes = sl @ runes v\<rparr>"
  using assms
  by (induction v arbitrary: sl) (simp_all add: runes_def step_alnum)

lemma loop_name:
  assumes "\<forall>c\<in>set v. alnum u (of_char c) \<and> ToLower u (of_char c) = of_char c"
    and "v \<noteq> []"
  shows "Slugify_loop u \<lparr>cutdash = c, emitdash = e, slug_runes = sl\<rparr> (runes v) =
           \<lparr>cutdash = False, emitdash = False,
            slug_runes = (if e \<and> \<not> c then sl @ [dash] else sl) @ runes v\<rparr>"
proof (cases v)
  case Nil
  with assms show ?thesis by simp
next
  case (Cons a w)
  with assms have a: "alnum u (of_char a)" "ToLower u (of_char a) = of_char a"
    and w: "\<forall>c\<in>set w. alnum u (of_char c) \<and> ToLower u (of_char c) = of_char c"
    by simp_all
  have "runes v = of_char a # runes w" by (simp add: Cons runes_def)
  then show ?thesis
    using a by (simp add: step_alnum loop_plain [OF w])
qed

lemma plain_name_facts:
  assumes "unicode_facts u" "plain_name v"
  shows "\<forall>c\<in>set v. alnum u (of_char c) \<and> ToLower u (of_char c) = of_char c" "v \<noteq> []"
proof -
  from assms(1) have "\<forall>c\<in>set ''abcdefghijklmnopqrstuvwxyz0123456789''.
      alnum u (of_char c) \<and> ToLower u (of_char c) = of_char c"
    unfolding unicode_facts_def by (elim conjE)
  moreover from assms(2) have "\<forall>c\<in>set v. c \<in> set ''abcdefghijklmnopqrstuvwxyz0123456789''"
    unfolding plain_name_def plain_char_def list_all_iff by (elim conjE)
  ultimately show "\<forall>c\<in>set v. alnum u (of_char c) \<and> ToLower u (of_char c) = of_char c"
    by blast
  from assms(2) show "v \<noteq> []" unfolding plain_name_def by (elim conjE)
qed

lemma second_pass_step:
  assumes u: "unicode_facts u" and st: "second_pass u st"
  shows "second_pass u (Slugify_step u st r)"
proof -
  let ?run = "Slugify_loop u Slugify_init"
  from u have nd: "\<not> alnum u dash"
    and low: "\<And>r. alnum u r \<Longrightarrow> alnum u (ToLower u r)"
    and idem: "\<And>r. alnum u r \<Longrightarrow> ToLower u (ToLower u r) = ToLower u r"
    by (auto simp: unicode_facts_def)
  from st have run: "?run (slug_runes st) = \<lparr>cutdash = cutdash st, emitdash = False, slug_runes = slug_runes st\<rparr>"
    by (simp add: second_pass_def)
  consider (an) "alnum u r"
    | (sep) "\<not> alnum u r" "r = slash \<or> r = equals"
    | (skip) "\<not> alnum u r" "\<not> (r = slash \<or> r = equals)"
        "slug_runes (Slugify_step u st r) = slug_runes st" "cutdash (Slugify_step u st r) = cutdash st"
    | (name) v where "\<not> alnum u r" "\<not> (r = slash \<or> r = equals)"
        "\<not> (r = dash \<or> r = comma \<or> r = period \<or> r = space \<or> r = lowbar)"
        "runename r = Some (runes v)" "plain_name v"
  proof (cases "alnum u r")
    case True
    then show ?thesis by (rule an)
  next
    case na: False
    show ?thesis
    proof (cases "r = slash \<or> r = equals")
      case True
      with na show ?thesis by (rule sep)
    next
      case ns: False
      show ?thesis
      proof (cases "r = dash \<or> r = comma \<or> r = period \<or> r = space \<or> r = lowbar")
        case True
        with na ns show ?thesis
          by (intro skip) (auto simp: Slugify_step_def alnum_def)
      next
        case nd: False
        show ?thesis
        proof (cases "runename r")
          case None
          with na ns nd show ?thesis
            by (intro skip) (auto simp: Slugify_step_def alnum_def)
        next
          case (Some nm)
          then obtain v where "nm = runes v" "plain_name v"
            by (rule runename_plain)
          with na ns nd Some show ?thesis by (intro name) auto
        qed
      qed
    qed
  qed
  then show ?thesis
  proof cases
    case an
    let ?l = "ToLower u r"
    have l: "alnum u ?l" "ToLower u ?l = ?l" using an low idem by auto
    show ?thesis
      using run l nd
      by (simp add: second_pass_def step_alnum [OF an] Slugify_loop_append step_dash
          step_alnum [OF l(1)])
  next
    case sep
    then show ?thesis
      using run
      by (auto simp: second_pass_def Slugify_step_def alnum_def Slugify_loop_append)
  next
    case skip
    then show ?thesis using run by (simp add: second_pass_def)
  next
    case (name v)
    have step: "Slugify_step u st r =
        \<lparr>cutdash = False, emitdash = True,
         slug_runes = (if \<not> cutdash st then slug_runes st @ [dash] else slug_runes st) @ runes v\<rparr>"
      using name by (simp add: Slugify_step_def alnum_def)
    note pf = plain_name_facts [OF u name(5)]
    show ?thesis
      using run nd
      by (simp add: second_pass_def step Slugify_loop_append step_dash loop_name [OF pf])
  qed
qed

lemma second_pass_loop:
  assumes "unicode_facts u" "second_pass u st"
  shows "second_pass u (Slugify_loop u st s)"
  using assms(2)
  by (induction s arbitrary: st) (simp_all add: second_pass_step [OF assms(1)])

lemma second_pass_init: "second_pass u Slugify_init"
  by (simp add: second_pass_def Slugify_init_def)

lemma Slugify_dash: "\<not> alnum u dash \<Longrightarrow> Slugify u [dash] = [dash]"
  by (simp add: Slugify_def Slugify_init_def step_dash)

lemma Slugify_idem:
  assumes "unicode_facts u"
  shows "Slugify u (Slugify u s) = Slugify u s"
proof -
  let ?st = "Slugify_loop u Slugify_init s"
  have sp: "second_pass u ?st"
    using assms second_pass_init by (rule second_pass_loop)
  show ?thesis
  proof (cases "slug_runes ?st = []")
    case True
    then have "Slugify u s = [dash]" by (simp add: Slugify_def)
    moreover from assms have "\<not> alnum u dash" by (simp add: unicode_facts_def)
    ultimately show ?thesis by (simp add: Slugify_dash)
  next
    case False
    then have "Slugify u s = slug_runes ?st" by (simp add: Slugify_def)
    moreover from sp False have "Slugify u (slug_runes ?st) = slug_runes ?st"
      by (simp add: second_pass_def Slugify_def)
    ultimately show ?thesis by simp
  qed
qed

subsection \<open>Looking runes up in the table\<close>

lemma runename_part0_amp: "map_of runename_part0 0x26 = Some ''amp''"
  by (simp only: runename_part0_def map_of.simps fst_conv snd_conv fun_upd_apply
      numeral_eq_iff semiring_norm if_False if_True)

lemma runename_part0_plus: "map_of runename_part0 0x2B = Some ''plus''"
  by (simp only: runename_part0_def map_of.simps fst_conv snd_conv fun_upd_apply
      numeral_eq_iff semiring_norm if_False if_True)

lemma runename_part0_excl: "map_of runename_part0 0x21 = Some ''excl''"
  by (simp only: runename_part0_def map_of.simps fst_conv snd_conv fun_upd_apply
      numeral_eq_iff semiring_norm if_False if_True)

lemma runename_part0_hit:
  "map_of runename_part0 r = Some v \<Longrightarrow> runename r = Some (runes v)"
  by (simp add: runename_def runename_table_def map_add_def)

lemma runename_amp: "runename 0x26 = Some (runes ''amp'')"
  using runename_part0_amp by (rule runename_part0_hit)

lemma runename_plus: "runename 0x2B = Some (runes ''plus'')"
  using runename_part0_plus by (rule runename_part0_hit)

lemma runename_excl: "runename 0x21 = Some (runes ''excl'')"
  using runename_part0_excl by (rule runename_part0_hit)


lemma runename_part0_tilde: "map_of runename_part0 0x7E = None"
  by (simp only: runename_part0_def map_of.simps fst_conv snd_conv fun_upd_apply
      numeral_eq_iff semiring_norm if_False)

lemma runename_part1_tilde: "map_of runename_part1 0x7E = None"
  by (simp only: runename_part1_def map_of.simps fst_conv snd_conv fun_upd_apply
      numeral_eq_iff semiring_norm if_False)

lemma runename_part2_tilde: "map_of runename_part2 0x7E = None"
  by (simp only: runename_part2_def map_of.simps fst_conv snd_conv fun_upd_apply
      numeral_eq_iff semiring_norm if_False)

lemma runename_part3_tilde: "map_of runename_part3 0x7E = None"
  by (simp only: runename_part3_def map_of.simps fst_conv snd_conv fun_upd_apply
      numeral_eq_iff semiring_norm if_False)

lemma runename_part4_tilde: "map_of runename_part4 0x7E = None"
  by (simp only: runename_part4_def map_of.simps fst_conv snd_conv fun_upd_apply
      numeral_eq_iff semiring_norm if_False)

lemma runename_part5_tilde: "map_of runename_part5 0x7E = None"
  by (simp only: runename_part5_def map_of.simps fst_conv snd_conv fun_upd_apply
      numeral_eq_iff semiring_norm if_False)

lemma runename_part6_tilde: "map_of runename_part6 0x7E = None"
  by (simp only: runename_part6_def map_of.simps fst_conv snd_conv fun_upd_apply
      numeral_eq_iff semiring_norm if_False)

lemma runename_part7_tilde: "map_of runename_part7 0x7E = None"
  by (simp only: runename_part7_def map_of.simps fst_conv snd_conv fun_upd_apply
      numeral_eq_iff semiring_norm if_False)

lemma runename_part8_tilde: "map_of runename_part8 0x7E = None"
  by (simp only: runename_part8_def map_of.simps fst_conv snd_conv fun_upd_apply
      numeral_eq_iff semiring_norm if_False)

lemma runename_part9_tilde: "map_of runename_part9 0x7E = None"
  by (simp only: runename_part9_def map_of.simps fst_conv snd_conv fun_upd_apply
      numeral_eq_iff semiring_norm if_False)

lemma runename_tilde: "runename 0x7E = None"
  by (simp only: runename_def runename_table_def map_of_append map_add_def
      runename_part0_tilde runename_part1_tilde runename_part2_tilde runename_part3_tilde
      runename_part4_tilde runename_part5_tilde runename_part6_tilde runename_part7_tilde
      runename_part8_tilde runename_part9_tilde option.simps)

lemmas Slugify_eval = Slugify_def Slugify_init_def Slugify_step_def ascii_unicode_def runes_def
  runename_amp [unfolded runes_def] runename_plus [unfolded runes_def]
  runename_excl [unfolded runes_def] runename_tilde

section \<open>Claims about kb/slug.go\<close>

text \<open>
  C10. \<^verbatim>\<open>Slugify\<close> returns for every input, and never the empty slug: the result is
  not empty, the empty string gives \<^verbatim>\<open>"-"\<close>, and so does every string made only of runes
  that have no slug representation (not a letter, not a number, not \<^verbatim>\<open>/\<close> or \<^verbatim>\<open>=\<close>, and
  either one of \<^verbatim>\<open>- , . _\<close> and the space, or absent from \<^verbatim>\<open>runename\<close>).
  The model is a total function whatever the unicode package answers.
\<close>

theorem Slugify_never_empty:
  "Slugify u s \<noteq> [] \<and> Slugify u [] = [dash] \<and>
   ((\<forall>r\<in>set s. no_slug_repr u r) \<longrightarrow> Slugify u s = [dash])"
  by (simp add: Slugify_not_Nil Slugify_only_dash)

theorem Slugify_never_empty_witness:
  "Slugify ascii_unicode (runes ''~ ._,-'') \<noteq> [] \<and> Slugify ascii_unicode [] = [dash] \<and>
   Slugify ascii_unicode (runes ''~ ._,-'') = runes ''-''"
proof -
  have "\<forall>r\<in>set (runes ''~ ._,-''). no_slug_repr ascii_unicode r"
    by (simp add: no_slug_repr_def runes_def ascii_unicode_def runename_tilde)
  with Slugify_never_empty [of ascii_unicode "runes ''~ ._,-''"] show ?thesis
    by (simp add: runes_def)
qed

text \<open>
  C9. \<^verbatim>\<open>Slugify\<close> is idempotent on its own output, and so every slug it produces passes
  \<^verbatim>\<open>ValidateSlug\<close>. The three hypotheses are facts of Go's unicode package, which the
  model takes as a parameter: the lower case of a letter or number is again a letter or
  number and is its own lower case; the runes \<^verbatim>\<open>a-z\<close> and \<^verbatim>\<open>0-9\<close>, of which every name
  in \<^verbatim>\<open>runename\<close> is made, are letters or numbers and their own lower case; and \<^verbatim>\<open>-\<close>
  is neither a letter nor a number.
\<close>

theorem Slugify_idempotent:
  assumes "\<forall>r. alnum u r \<longrightarrow> alnum u (ToLower u r) \<and> ToLower u (ToLower u r) = ToLower u r"
    and "\<forall>c\<in>set ''abcdefghijklmnopqrstuvwxyz0123456789''.
           alnum u (of_char c) \<and> ToLower u (of_char c) = of_char c"
    and "\<not> alnum u dash"
  shows "Slugify u (Slugify u s) = Slugify u s \<and> ValidateSlug u (Slugify u s) = None"
proof -
  from assms have "unicode_facts u"
    unfolding unicode_facts_def by (intro conjI)
  then have "Slugify u (Slugify u s) = Slugify u s"
    by (rule Slugify_idem)
  then show ?thesis
    by (simp add: ValidateSlug_def Slugify_not_Nil)
qed

theorem Slugify_idempotent_witness:
  "Slugify ascii_unicode (runes ''Hello  World  /  Test +&!'') = runes ''hello-world/test-plus-amp-excl'' \<and>
   Slugify ascii_unicode (runes ''hello-world/test-plus-amp-excl'') = runes ''hello-world/test-plus-amp-excl'' \<and>
   ValidateSlug ascii_unicode (runes ''hello-world/test-plus-amp-excl'') = None"
proof -
  have ev: "Slugify ascii_unicode (runes ''Hello  World  /  Test +&!'') =
      runes ''hello-world/test-plus-amp-excl''"
    by (simp add: Slugify_eval)
  have h1: "\<forall>r. alnum ascii_unicode r \<longrightarrow> alnum ascii_unicode (ToLower ascii_unicode r) \<and>
      ToLower ascii_unicode (ToLower ascii_unicode r) = ToLower ascii_unicode r"
    by (simp add: alnum_def ascii_unicode_def)
  have h2: "\<forall>c\<in>set ''abcdefghijklmnopqrstuvwxyz0123456789''.
      alnum ascii_unicode (of_char c) \<and> ToLower ascii_unicode (of_char c) = of_char c"
    by (simp add: alnum_def ascii_unicode_def)
  have h3: "\<not> alnum ascii_unicode dash"
    by (simp add: alnum_def ascii_unicode_def)
  from Slugify_idempotent [OF h1 h2 h3, of "runes ''Hello  World  /  Test +&!''"] ev
  show ?thesis by simp
qed

section \<open>Claims about titelize\<close>

text \<open>
  C2. \<^verbatim>\<open>titelize\<close> is to replace the separators \<^verbatim>\<open>/\<close> and \<^verbatim>\<open>&\<close> inside a title by the
  words \<^verbatim>\<open>or\<close> and \<^verbatim>\<open>and\<close>, and to leave the rest of the title as it is. The expression
  \<^verbatim>\<open>rxAnd\<close> takes the rune in front of the separator into the match, so that rune is
  replaced too: \<^verbatim>\<open>"Setup & Install"\<close> becomes \<^verbatim>\<open>"Setu and Install"\<close>, while
  \<^verbatim>\<open>"Setup / Install"\<close> becomes \<^verbatim>\<open>"Setup or Install"\<close>.
\<close>

theorem titelize_drops_rune_before_amp:
  "titelize (runes ''Setup & Install'') = runes ''Setu and Install'' \<and>
   titelize (runes ''Setup & Install'') \<noteq> runes ''Setup and Install'' \<and>
   titelize (runes ''Setup / Install'') = runes ''Setup or Install''"
  by (simp add: titelize_def runes_def rxAnd_match_def rxOr_match_def sep_match_def lit_def
      opt_space_def)

section \<open>Lemmas about CreateMapping\<close>

subsection \<open>The first loop\<close>

lemma assign_slug_unfold:
  "assign_slug f st t =
     (let h = (heap st)(t := normalized (heap st t));
          title = titelize (Title (heap st t))
      in case byslug st (f title) of
           Some other \<Rightarrow>
             \<lparr>byslug = byslug st, bytopic = bytopic st,
              errors = errors st @
                [ClashingTitle title (Filename (heap st t)) (Filename (heap st other))],
              heap = h\<rparr>
         | None \<Rightarrow>
             if title = [] then
               \<lparr>byslug = byslug st, bytopic = bytopic st,
                errors = errors st @ [TitleMissing (Filename (heap st t))], heap = h\<rparr>
             else
               \<lparr>byslug = (byslug st)(f title \<mapsto> t), bytopic = (bytopic st)(t \<mapsto> f title),
                errors = errors st, heap = h\<rparr>)"
  by (cases st) (auto simp: assign_slug_def normalized_def Let_def split: option.splits)

lemma heap_assign_slug:
  "heap (assign_slug f st t) = (heap st)(t := normalized (heap st t))"
  by (simp add: assign_slug_unfold Let_def split: option.splits)

lemma Filename_normalized: "Filename (normalized tp) = Filename tp"
  by (simp add: normalized_def)

lemma Filename_assign_slug: "Filename (heap (assign_slug f st t) x) = Filename (heap st x)"
  by (simp add: heap_assign_slug Filename_normalized)

lemma errors_assign_slug: "set (errors st) \<subseteq> set (errors (assign_slug f st t))"
  by (auto simp: assign_slug_unfold Let_def split: option.splits)

lemma byslug_assign_slug_mono:
  "byslug st s = Some x \<Longrightarrow> byslug (assign_slug f st t) s = Some x"
  by (auto simp: assign_slug_unfold Let_def split: option.splits)

lemma bytopic_assign_slug_other:
  "x \<noteq> t \<Longrightarrow> bytopic (assign_slug f st t) x = bytopic st x"
  by (auto simp: assign_slug_unfold Let_def split: option.splits)

lemma inverse_maps_fwd: "inverse_maps bs bt \<Longrightarrow> bs s = Some t \<Longrightarrow> bt t = Some s"
  unfolding inverse_maps_def by blast

lemma inverse_maps_bwd: "inverse_maps bs bt \<Longrightarrow> bt t = Some s \<Longrightarrow> bs s = Some t"
  unfolding inverse_maps_def by blast

lemma inverse_maps_insert:
  assumes "inverse_maps bs bt" "bs s = None" "bt t = None"
  shows "inverse_maps (bs(s \<mapsto> t)) (bt(t \<mapsto> s))"
  unfolding inverse_maps_def
proof (intro conjI allI impI)
  fix s' x
  assume a: "(bs(s \<mapsto> t)) s' = Some x"
  show "(bt(t \<mapsto> s)) x = Some s'"
  proof (cases "s' = s")
    case True
    with a show ?thesis by simp
  next
    case False
    with a have b: "bs s' = Some x" by simp
    with assms(1) have c: "bt x = Some s'" by (rule inverse_maps_fwd)
    with assms(3) have "x \<noteq> t" by auto
    with c show ?thesis by simp
  qed
next
  fix x s'
  assume a: "(bt(t \<mapsto> s)) x = Some s'"
  show "(bs(s \<mapsto> t)) s' = Some x"
  proof (cases "x = t")
    case True
    with a show ?thesis by simp
  next
    case False
    with a have b: "bt x = Some s'" by simp
    with assms(1) have c: "bs s' = Some x" by (rule inverse_maps_bwd)
    with assms(2) have "s' \<noteq> s" by auto
    with c show ?thesis by simp
  qed
qed

lemma assign_slug_maps:
  "(byslug (assign_slug f st t) = byslug st \<and> bytopic (assign_slug f st t) = bytopic st) \<or>
   (\<exists>s. byslug st s = None \<and> byslug (assign_slug f st t) = (byslug st)(s \<mapsto> t) \<and>
        bytopic (assign_slug f st t) = (bytopic st)(t \<mapsto> s))"
proof (cases "byslug st (f (titelize (Title (heap st t)))) = None \<and>
    titelize (Title (heap st t)) \<noteq> []")
  case True
  then have "byslug st (f (titelize (Title (heap st t)))) = None \<and>
      byslug (assign_slug f st t) = (byslug st)(f (titelize (Title (heap st t))) \<mapsto> t) \<and>
      bytopic (assign_slug f st t) = (bytopic st)(t \<mapsto> f (titelize (Title (heap st t))))"
    by (simp add: assign_slug_unfold Let_def)
  then show ?thesis by blast
next
  case False
  then have "byslug (assign_slug f st t) = byslug st \<and> bytopic (assign_slug f st t) = bytopic st"
    by (auto simp: assign_slug_unfold Let_def split: option.splits)
  then show ?thesis by blast
qed

lemma inverse_maps_assign_slug:
  assumes "inverse_maps (byslug st) (bytopic st)" "bytopic st t = None"
  shows "inverse_maps (byslug (assign_slug f st t)) (bytopic (assign_slug f st t))"
  using assign_slug_maps [of f st t]
proof (elim disjE conjE exE)
  assume "byslug (assign_slug f st t) = byslug st" "bytopic (assign_slug f st t) = bytopic st"
  with assms(1) show ?thesis by simp
next
  fix s
  assume "byslug st s = None" and eq: "byslug (assign_slug f st t) = (byslug st)(s \<mapsto> t)"
    "bytopic (assign_slug f st t) = (bytopic st)(t \<mapsto> s)"
  with assms show ?thesis
    unfolding eq by (intro inverse_maps_insert)
qed

lemma byslug_assign_slug_new:
  assumes "byslug (assign_slug f st t) s = Some x"
  shows "byslug st s = Some x \<or>
    (x = t \<and> s = f (titelize (Title (heap st t))) \<and> titelize (Title (heap st t)) \<noteq> [])"
  using assms
  by (auto simp: assign_slug_unfold Let_def split: option.splits if_splits)

lemma heap_assign_slugs:
  "x \<notin> set ts \<Longrightarrow> heap (assign_slugs f st ts) x = heap st x"
  by (induction ts arbitrary: st) (simp_all add: heap_assign_slug)

lemma Filename_assign_slugs: "Filename (heap (assign_slugs f st ts) x) = Filename (heap st x)"
  by (induction ts arbitrary: st) (simp_all add: Filename_assign_slug)

lemma errors_assign_slugs: "set (errors st) \<subseteq> set (errors (assign_slugs f st ts))"
proof (induction ts arbitrary: st)
  case Nil
  show ?case by simp
next
  case (Cons t ts)
  from errors_assign_slug [of st f t] Cons [of "assign_slug f st t"]
  show ?case by simp
qed

lemma byslug_assign_slugs_mono:
  "byslug st s = Some x \<Longrightarrow> byslug (assign_slugs f st ts) s = Some x"
  by (induction ts arbitrary: st) (simp_all add: byslug_assign_slug_mono)

lemma bytopic_assign_slugs_other:
  "x \<notin> set ts \<Longrightarrow> bytopic (assign_slugs f st ts) x = bytopic st x"
  by (induction ts arbitrary: st) (simp_all add: bytopic_assign_slug_other)

lemma inverse_maps_assign_slugs:
  assumes "inverse_maps (byslug st) (bytopic st)" "distinct ts" "\<forall>x\<in>set ts. bytopic st x = None"
  shows "inverse_maps (byslug (assign_slugs f st ts)) (bytopic (assign_slugs f st ts))"
  using assms
proof (induction ts arbitrary: st)
  case Nil
  then show ?case by simp
next
  case (Cons t ts)
  from Cons.prems have "inverse_maps (byslug (assign_slug f st t)) (bytopic (assign_slug f st t))"
    by (simp add: inverse_maps_assign_slug)
  moreover have "\<forall>x\<in>set ts. bytopic (assign_slug f st t) x = None"
  proof
    fix x
    assume "x \<in> set ts"
    with Cons.prems have "x \<noteq> t" "bytopic st x = None" by auto
    then show "bytopic (assign_slug f st t) x = None"
      by (simp add: bytopic_assign_slug_other)
  qed
  moreover from Cons.prems have "distinct ts" by simp
  ultimately show ?case by (simp add: Cons.IH)
qed

lemma byslug_assign_slugs_new:
  assumes "distinct ts" "byslug (assign_slugs f st ts) s = Some x"
  shows "byslug st s = Some x \<or>
    (x \<in> set ts \<and> s = f (titelize (Title (heap st x))) \<and> titelize (Title (heap st x)) \<noteq> [])"
  using assms
proof (induction ts arbitrary: st)
  case Nil
  then show ?case by simp
next
  case (Cons t ts)
  let ?st = "assign_slug f st t"
  from Cons.prems have d: "distinct ts" "t \<notin> set ts" by simp_all
  from Cons.prems(2) have "byslug (assign_slugs f ?st ts) s = Some x" by simp
  with Cons.IH [OF d(1)] have
    "byslug ?st s = Some x \<or>
      (x \<in> set ts \<and> s = f (titelize (Title (heap ?st x))) \<and> titelize (Title (heap ?st x)) \<noteq> [])"
    by blast
  then show ?case
  proof
    assume "byslug ?st s = Some x"
    from byslug_assign_slug_new [OF this] show ?thesis by auto
  next
    assume a: "x \<in> set ts \<and> s = f (titelize (Title (heap ?st x))) \<and>
      titelize (Title (heap ?st x)) \<noteq> []"
    with d have "x \<noteq> t" by auto
    then have "heap ?st x = heap st x" by (simp add: heap_assign_slug)
    with a show ?thesis by simp
  qed
qed

subsection \<open>The second loop\<close>

lemma errors_promote: "errors (promote f st k) = errors st"
  by (simp add: promote_def Let_def split: option.splits)

lemma errors_promotes: "errors (promotes f st ks) = errors st"
  by (induction ks arbitrary: st) (simp_all add: errors_promote)

lemma inverse_maps_promote:
  assumes "inverse_maps (byslug st) (bytopic st)"
  shows "inverse_maps (byslug (promote f st k)) (bytopic (promote f st k))"
proof (cases "byslug st k")
  case None
  with assms show ?thesis by (simp add: promote_def)
next
  case (Some t)
  with assms have kt: "bytopic st t = Some k" by (intro inverse_maps_fwd)
  show ?thesis
  proof (cases "promote f st k = st")
    case True
    with assms show ?thesis by simp
  next
    case False
    let ?s = "f (ShortTitle (heap st t))"
    from False Some have free: "byslug st ?s = None"
      by (auto simp: promote_def Let_def split: if_splits)
    from False Some have
      bs: "byslug (promote f st k) = ((byslug st)(k := None))(?s \<mapsto> t)" and
      bt: "bytopic (promote f st k) = (bytopic st)(t \<mapsto> ?s)"
      by (auto simp: promote_def Let_def split: if_splits)
    from free Some have ne: "?s \<noteq> k" by auto
    show ?thesis
      unfolding bs bt inverse_maps_def
    proof (intro conjI allI impI)
      fix s x
      assume a: "(((byslug st)(k := None))(?s \<mapsto> t)) s = Some x"
      show "((bytopic st)(t \<mapsto> ?s)) x = Some s"
      proof (cases "s = ?s")
        case True
        with a show ?thesis by simp
      next
        case ns: False
        with a have sk: "s \<noteq> k" and b: "byslug st s = Some x"
          by (auto split: if_splits)
        from assms b have c: "bytopic st x = Some s" by (rule inverse_maps_fwd)
        with kt sk have "x \<noteq> t" by auto
        with c show ?thesis by simp
      qed
    next
      fix x s
      assume a: "((bytopic st)(t \<mapsto> ?s)) x = Some s"
      show "(((byslug st)(k := None))(?s \<mapsto> t)) s = Some x"
      proof (cases "x = t")
        case True
        with a show ?thesis by simp
      next
        case nx: False
        with a have b: "bytopic st x = Some s" by simp
        with assms have c: "byslug st s = Some x" by (intro inverse_maps_bwd)
        with free have "s \<noteq> ?s" by auto
        moreover from c Some nx have "s \<noteq> k" by auto
        ultimately show ?thesis using c by simp
      qed
    qed
  qed
qed

lemma inverse_maps_promotes:
  "inverse_maps (byslug st) (bytopic st) \<Longrightarrow>
   inverse_maps (byslug (promotes f st ks)) (bytopic (promotes f st ks))"
  by (induction ks arbitrary: st) (simp_all add: inverse_maps_promote)

lemma dom_bytopic_promote:
  assumes "inverse_maps (byslug st) (bytopic st)"
  shows "dom (bytopic (promote f st k)) = dom (bytopic st)"
proof (cases "byslug st k")
  case None
  then show ?thesis by (simp add: promote_def)
next
  case (Some t)
  with assms have "bytopic st t = Some k" by (intro inverse_maps_fwd)
  then have "t \<in> dom (bytopic st)" by auto
  with Some show ?thesis
    by (auto simp: promote_def Let_def split: if_splits)
qed

lemma dom_bytopic_promotes:
  "inverse_maps (byslug st) (bytopic st) \<Longrightarrow> dom (bytopic (promotes f st ks)) = dom (bytopic st)"
  by (induction ks arbitrary: st) (simp_all add: dom_bytopic_promote inverse_maps_promote)

lemma inverse_maps_ran:
  "inverse_maps bs bt \<Longrightarrow> ran bs = dom bt"
  unfolding inverse_maps_def ran_def dom_def by blast

lemma promote_keeps:
  assumes "inverse_maps (byslug st) (bytopic st)" "byslug st p = Some t" "k \<noteq> p"
  shows "byslug (promote f st k) p = Some t \<and> heap (promote f st k) t = heap st t"
proof (cases "byslug st k")
  case None
  with assms show ?thesis by (simp add: promote_def)
next
  case (Some x)
  with assms have "bytopic st x = Some k" "bytopic st t = Some p"
    by (auto intro: inverse_maps_fwd)
  with assms(3) have "x \<noteq> t" by auto
  with Some assms(2,3) show ?thesis
    by (auto simp: promote_def Let_def)
qed

lemma promote_settled:
  "byslug st s = Some t \<Longrightarrow> ShortTitle (heap st t) = [] \<Longrightarrow> promote f st s = st"
  by (simp add: promote_def)


lemma promotes_settled:
  assumes "inverse_maps (byslug st) (bytopic st)" "byslug st s = Some t"
    "ShortTitle (heap st t) = []"
  shows "byslug (promotes f st ks) s = Some t \<and> heap (promotes f st ks) t = heap st t"
  using assms
proof (induction ks arbitrary: st)
  case Nil
  then show ?case by simp
next
  case (Cons k ks)
  show ?case
  proof (cases "k = s")
    case True
    with Cons.prems have "promote f st k = st" by (simp add: promote_settled)
    with Cons show ?thesis by simp
  next
    case False
    from promote_keeps [OF Cons.prems(1,2) False, of f]
      inverse_maps_promote [OF Cons.prems(1), of f k] Cons.prems(3)
      Cons.IH [of "promote f st k"]
    show ?thesis by simp
  qed
qed

subsection \<open>Both loops\<close>

lemma assign_slugs_append:
  "assign_slugs f st (xs @ ys) = assign_slugs f (assign_slugs f st xs) ys"
  by (induction xs arbitrary: st) simp_all


lemma inverse_maps_init: "inverse_maps (byslug (mapping_init h)) (bytopic (mapping_init h))"
  by (simp add: inverse_maps_def mapping_init_def)

lemma inverse_maps_first_pass:
  "distinct topics \<Longrightarrow>
   inverse_maps (byslug (assign_slugs f (mapping_init h) topics))
     (bytopic (assign_slugs f (mapping_init h) topics))"
  by (rule inverse_maps_assign_slugs [OF inverse_maps_init]) (simp_all add: mapping_init_def)

lemma inverse_maps_inj1:
  "inverse_maps bs bt \<Longrightarrow> bs s = Some t \<Longrightarrow> bs s' = Some t \<Longrightarrow> s = s'"
  by (metis inverse_maps_fwd option.inject)

lemma inverse_maps_inj2:
  "inverse_maps bs bt \<Longrightarrow> bt t = Some s \<Longrightarrow> bt t' = Some s \<Longrightarrow> t = t'"
  by (metis inverse_maps_bwd option.inject)

lemma CreateMapping_parts:
  "fst (CreateMapping f h topics keys) =
     \<lparr>Topics = topics,
      BySlug = byslug (promotes f (assign_slugs f (mapping_init h) topics) keys),
      ByTopic = bytopic (promotes f (assign_slugs f (mapping_init h) topics) keys)\<rparr>"
  "fst (snd (CreateMapping f h topics keys)) = errors (assign_slugs f (mapping_init h) topics)"
  "snd (snd (CreateMapping f h topics keys)) =
     heap (promotes f (assign_slugs f (mapping_init h) topics) keys)"
  by (simp_all add: CreateMapping_def Let_def errors_promotes)

lemma first_pass_at:
  assumes "distinct (ts1 @ t # ts2)"
  shows "heap (assign_slugs f (mapping_init h) ts1) t = h t"
    and "bytopic (assign_slugs f (mapping_init h) ts1) t = None"
    and "Filename (heap (assign_slugs f (mapping_init h) ts1) x) = Filename (h x)"
  using assms
  by (simp_all add: heap_assign_slugs bytopic_assign_slugs_other Filename_assign_slugs
      mapping_init_def)

lemma assign_slug_rejected:
  assumes "byslug st (f (titelize (Title (heap st t)))) \<noteq> None \<or> titelize (Title (heap st t)) = []"
  shows "byslug (assign_slug f st t) = byslug st" "bytopic (assign_slug f st t) = bytopic st"
  using assms by (auto simp: assign_slug_unfold Let_def split: option.splits)

lemma assign_slug_clash:
  assumes "byslug st (f (titelize (Title (heap st t)))) = Some other"
  shows "ClashingTitle (titelize (Title (heap st t))) (Filename (heap st t))
           (Filename (heap st other)) \<in> set (errors (assign_slug f st t))"
  using assms by (simp add: assign_slug_unfold Let_def)

lemma assign_slug_missing:
  assumes "byslug st (f (titelize (Title (heap st t)))) = None" "titelize (Title (heap st t)) = []"
  shows "TitleMissing (Filename (heap st t)) \<in> set (errors (assign_slug f st t))"
  using assms by (simp add: assign_slug_unfold Let_def)

lemma assign_slug_registered:
  assumes "byslug st (f (titelize (Title (heap st t)))) = None" "titelize (Title (heap st t)) \<noteq> []"
  shows "byslug (assign_slug f st t) (f (titelize (Title (heap st t)))) = Some t"
  using assms by (simp add: assign_slug_unfold Let_def)

lemma excluded_after_second_pass:
  assumes "distinct topics" "bytopic (assign_slugs f (mapping_init h) topics) t = None"
  shows "ByTopic (fst (CreateMapping f h topics keys)) t = None"
    and "t \<notin> ran (BySlug (fst (CreateMapping f h topics keys)))"
proof -
  let ?st1 = "assign_slugs f (mapping_init h) topics"
  let ?m = "fst (CreateMapping f h topics keys)"
  from assms(1) have inv: "inverse_maps (byslug ?st1) (bytopic ?st1)"
    by (rule inverse_maps_first_pass)
  then have "dom (ByTopic ?m) = dom (bytopic ?st1)"
    by (simp add: CreateMapping_parts dom_bytopic_promotes)
  with assms(2) show none: "ByTopic ?m t = None" by auto
  from inv have "inverse_maps (BySlug ?m) (ByTopic ?m)"
    by (simp add: CreateMapping_parts inverse_maps_promotes)
  then have "ran (BySlug ?m) = dom (ByTopic ?m)" by (rule inverse_maps_ran)
  with none show "t \<notin> ran (BySlug ?m)" by auto
qed

lemma kept_after_second_pass:
  assumes "distinct topics" "bytopic (assign_slugs f (mapping_init h) topics) t = Some s"
  shows "t \<in> dom (ByTopic (fst (CreateMapping f h topics keys)))"
    and "t \<in> ran (BySlug (fst (CreateMapping f h topics keys)))"
proof -
  let ?st1 = "assign_slugs f (mapping_init h) topics"
  let ?m = "fst (CreateMapping f h topics keys)"
  from assms(1) have inv: "inverse_maps (byslug ?st1) (bytopic ?st1)"
    by (rule inverse_maps_first_pass)
  then have "dom (ByTopic ?m) = dom (bytopic ?st1)"
    by (simp add: CreateMapping_parts dom_bytopic_promotes)
  with assms(2) show d: "t \<in> dom (ByTopic ?m)" by auto
  from inv have "inverse_maps (BySlug ?m) (ByTopic ?m)"
    by (simp add: CreateMapping_parts inverse_maps_promotes)
  then have "ran (BySlug ?m) = dom (ByTopic ?m)" by (rule inverse_maps_ran)
  with d show "t \<in> ran (BySlug ?m)" by auto
qed


lemma promote_done:
  assumes "byslug st prev = Some t" "ShortTitle (heap st t) \<noteq> []"
    "len (ShortTitle (heap st t)) < len (Title (heap st t))"
    "byslug st (f (ShortTitle (heap st t))) = None"
  shows "byslug (promote f st prev) (f (ShortTitle (heap st t))) = Some t"
    and "byslug (promote f st prev) prev = None"
    and "Title (heap (promote f st prev) t) = ShortTitle (heap st t)"
    and "ShortTitle (heap (promote f st prev) t) = []"
proof -
  from assms(1,4) have "f (ShortTitle (heap st t)) \<noteq> prev" by auto
  with assms show
    "byslug (promote f st prev) (f (ShortTitle (heap st t))) = Some t"
    "byslug (promote f st prev) prev = None"
    "Title (heap (promote f st prev) t) = ShortTitle (heap st t)"
    "ShortTitle (heap (promote f st prev) t) = []"
    by (simp_all add: promote_def Let_def)
qed

lemma heap_assign_slugs_in:
  "distinct ts \<Longrightarrow> x \<in> set ts \<Longrightarrow> heap (assign_slugs f st ts) x = normalized (heap st x)"
proof (induction ts arbitrary: st)
  case Nil
  then show ?case by simp
next
  case (Cons t ts)
  show ?case
  proof (cases "x = t")
    case True
    with Cons.prems have "x \<notin> set ts" by simp
    then have "heap (assign_slugs f (assign_slug f st t) ts) x = heap (assign_slug f st t) x"
      by (rule heap_assign_slugs)
    with True show ?thesis by (simp add: heap_assign_slug)
  next
    case False
    with Cons.prems have "distinct ts" "x \<in> set ts" by simp_all
    then have "heap (assign_slugs f (assign_slug f st t) ts) x
        = normalized (heap (assign_slug f st t) x)"
      by (rule Cons.IH)
    with False show ?thesis by (simp add: heap_assign_slug)
  qed
qed

lemma promote_cases:
  assumes "byslug st prev = Some t"
  shows "promote f st prev = st \<or>
    (ShortTitle (heap st t) \<noteq> [] \<and> len (ShortTitle (heap st t)) < len (Title (heap st t)) \<and>
     byslug st (f (ShortTitle (heap st t))) = None)"
  using assms by (auto simp: promote_def Let_def)

lemma promotes_where:
  assumes "inverse_maps (byslug st) (bytopic st)" "byslug st p = Some t"
  shows "(byslug (promotes f st ks) p = Some t \<and> heap (promotes f st ks) t = heap st t) \<or>
    (byslug (promotes f st ks) (f (ShortTitle (heap st t))) = Some t \<and>
     Title (heap (promotes f st ks) t) = ShortTitle (heap st t) \<and>
     ShortTitle (heap (promotes f st ks) t) = [])"
  using assms
proof (induction ks arbitrary: st)
  case Nil
  then show ?case by simp
next
  case (Cons k ks)
  let ?st = "promote f st k"
  from Cons.prems(1) have inv: "inverse_maps (byslug ?st) (bytopic ?st)"
    by (rule inverse_maps_promote)
  show ?case
  proof (cases "k = p")
    case False
    from promote_keeps [OF Cons.prems False, of f]
    have keep: "byslug ?st p = Some t" "heap ?st t = heap st t" by simp_all
    from Cons.IH [OF inv keep(1)] keep(2) show ?thesis by simp
  next
    case True
    from promote_cases [OF Cons.prems(2), of f]
    show ?thesis
    proof
      assume same: "promote f st p = st"
      from Cons.IH [OF Cons.prems] True same show ?thesis by simp
    next
      assume a: "ShortTitle (heap st t) \<noteq> [] \<and>
        len (ShortTitle (heap st t)) < len (Title (heap st t)) \<and>
        byslug st (f (ShortTitle (heap st t))) = None"
      then have a': "ShortTitle (heap st t) \<noteq> []"
        "len (ShortTitle (heap st t)) < len (Title (heap st t))"
        "byslug st (f (ShortTitle (heap st t))) = None" by simp_all
      note pd = promote_done [where f = f, OF Cons.prems(2) a']
      from inv pd(1) pd(4) have
        "byslug (promotes f (promote f st p) ks) (f (ShortTitle (heap st t))) = Some t \<and>
         heap (promotes f (promote f st p) ks) t = heap (promote f st p) t"
        unfolding True [symmetric] by (rule promotes_settled)
      with pd(3,4) True show ?thesis by simp
    qed
  qed
qed

lemma winner_after_second_pass:
  assumes "distinct topics" "w \<in> set topics"
    "byslug (assign_slugs f (mapping_init h) topics) s = Some w"
  shows "(BySlug (fst (CreateMapping f h topics keys)) s = Some w \<and>
          ByTopic (fst (CreateMapping f h topics keys)) w = Some s) \<or>
         (BySlug (fst (CreateMapping f h topics keys)) (f (titelize (ShortTitle (h w)))) = Some w \<and>
          ByTopic (fst (CreateMapping f h topics keys)) w = Some (f (titelize (ShortTitle (h w)))))"
proof -
  let ?st1 = "assign_slugs f (mapping_init h) topics"
  let ?fin = "promotes f ?st1 keys"
  from assms(1) have inv: "inverse_maps (byslug ?st1) (bytopic ?st1)"
    by (rule inverse_maps_first_pass)
  then have invF: "inverse_maps (byslug ?fin) (bytopic ?fin)"
    by (rule inverse_maps_promotes)
  from assms(1,2) have "heap ?st1 w = normalized (heap (mapping_init h) w)"
    by (rule heap_assign_slugs_in)
  then have short: "ShortTitle (heap ?st1 w) = titelize (ShortTitle (h w))"
    by (simp add: normalized_def mapping_init_def)
  from promotes_where [OF inv assms(3), of f keys]
  have "byslug ?fin s = Some w \<or> byslug ?fin (f (titelize (ShortTitle (h w)))) = Some w"
    unfolding short by blast
  then have "(byslug ?fin s = Some w \<and> bytopic ?fin w = Some s) \<or>
    (byslug ?fin (f (titelize (ShortTitle (h w)))) = Some w \<and>
     bytopic ?fin w = Some (f (titelize (ShortTitle (h w)))))"
    using inverse_maps_fwd [OF invF] by blast
  then show ?thesis by (simp add: CreateMapping_parts)
qed

section \<open>Evaluation of the example corpora\<close>

lemmas titelize_eval = titelize_def rxAnd_match_def rxOr_match_def sep_match_def lit_def
  opt_space_def

lemma runes_eq_iff: "runes a = runes b \<longleftrightarrow> a = b"
proof -
  have "inj (of_char :: char \<Rightarrow> nat)"
    by (rule injI) (metis char_of_char)
  then have "inj (map (of_char :: char \<Rightarrow> nat))" by simp
  then show ?thesis by (auto simp: runes_def dest: injD)
qed

lemma runes_Nil: "runes [] = []" "runes s = [] \<longleftrightarrow> s = []" "[] = runes s \<longleftrightarrow> s = []"
  by (auto simp: runes_def)


lemma corpus_titles:
  "titelize (runes ''Setup / Install'') = runes ''Setup or Install''"
  "titelize (runes ''Setup or Install'') = runes ''Setup or Install''"
  "titelize (runes ''Introduction'') = runes ''Introduction''"
  "titelize (runes ''Overview of Intro'') = runes ''Overview of Intro''"
  "titelize (runes ''Intro'') = runes ''Intro''"
  "titelize (runes ''Setup Guide'') = runes ''Setup Guide''"
  "titelize (runes ''Setup'') = runes ''Setup''"
  "titelize (runes ''...'') = runes ''...''"
  "titelize [] = []"
  by (simp_all add: titelize_eval runes_def)

lemma corpus_slugs:
  "kb_Slugify (runes ''Setup or Install'') = runes ''setup-or-install''"
  "kb_Slugify (runes ''Introduction'') = runes ''introduction''"
  "kb_Slugify (runes ''Overview of Intro'') = runes ''overview-of-intro''"
  "kb_Slugify (runes ''Intro'') = runes ''intro''"
  "kb_Slugify (runes ''Setup Guide'') = runes ''setup-guide''"
  "kb_Slugify (runes ''Setup'') = runes ''setup''"
  "kb_Slugify (runes ''...'') = runes ''-''"
  "kb_Slugify [] = runes ''-''"
  by (simp_all add: kb_Slugify_def Slugify_eval)

lemma corpus_lens:
  "len (runes ''Introduction'') = 12"
  "len (runes ''Overview of Intro'') = 17"
  "len (runes ''Intro'') = 5"
  "len (runes ''Setup or Install'') = 16"
  "len (runes ''Setup Guide'') = 11"
  "len (runes ''Setup'') = 5"
  "len (runes ''...'') = 3"
  "len [] = 0"
  by (simp_all add: len_def RuneLen_def runes_def)

lemmas mapping_eval = CreateMapping_parts assign_slug_unfold promote_def mapping_init_def Let_def
  mk_topic_def normalized_def runes_eq_iff runes_Nil corpus_titles corpus_slugs corpus_lens

subsection \<open>The corpus of four topics\<close>



lemma corpus_result:
  "BySlug (fst (CreateMapping kb_Slugify corpus [12, 10, 11, 13]
     [runes ''introduction'', runes ''setup-or-install'', runes ''overview-of-intro'']))
     (runes ''intro'') = Some 12"
  by (simp add: mapping_eval corpus_def)

section \<open>Claims about CreateMapping\<close>

text \<open>
  C1. The two maps that \<^verbatim>\<open>CreateMapping\<close> returns are inverse to each other: for every
  pair in \<^verbatim>\<open>BySlug\<close> the reverse pair is in \<^verbatim>\<open>ByTopic\<close>, and for every pair in
  \<^verbatim>\<open>ByTopic\<close> the reverse pair is in \<^verbatim>\<open>BySlug\<close>; so no topic is under two identifiers and no
  identifier belongs to two topics. This holds after the first loop and after the second,
  for every slug function and every order in which the loops meet the topics and the
  keys. The topics of the index are distinct objects.
\<close>

theorem CreateMapping_bijection:
  assumes "distinct topics"
  shows "inverse_maps (byslug (assign_slugs slugify (mapping_init h) topics))
           (bytopic (assign_slugs slugify (mapping_init h) topics)) \<and>
         inverse_maps (BySlug (fst (CreateMapping slugify h topics keys)))
           (ByTopic (fst (CreateMapping slugify h topics keys))) \<and>
         (\<forall>s s' t. BySlug (fst (CreateMapping slugify h topics keys)) s = Some t \<and>
            BySlug (fst (CreateMapping slugify h topics keys)) s' = Some t \<longrightarrow> s = s') \<and>
         (\<forall>t t' s. ByTopic (fst (CreateMapping slugify h topics keys)) t = Some s \<and>
            ByTopic (fst (CreateMapping slugify h topics keys)) t' = Some s \<longrightarrow> t = t')"
proof -
  let ?st1 = "assign_slugs slugify (mapping_init h) topics"
  let ?m = "fst (CreateMapping slugify h topics keys)"
  from assms have one: "inverse_maps (byslug ?st1) (bytopic ?st1)"
    by (rule inverse_maps_first_pass)
  then have two: "inverse_maps (BySlug ?m) (ByTopic ?m)"
    by (simp add: CreateMapping_parts inverse_maps_promotes)
  from one two show ?thesis
    by (blast dest: inverse_maps_inj1 [OF two] inverse_maps_inj2 [OF two])
qed

theorem CreateMapping_bijection_witness:
  "distinct [12, 10, 11, 13 :: topic_ref] \<and>
   BySlug (fst (CreateMapping kb_Slugify corpus [12, 10, 11, 13]
     [runes ''introduction'', runes ''setup-or-install'', runes ''overview-of-intro'']))
     (runes ''intro'') = Some 12 \<and>
   ByTopic (fst (CreateMapping kb_Slugify corpus [12, 10, 11, 13]
     [runes ''introduction'', runes ''setup-or-install'', runes ''overview-of-intro'']))
     12 = Some (runes ''intro'')"
proof -
  let ?m = "fst (CreateMapping kb_Slugify corpus [12, 10, 11, 13]
     [runes ''introduction'', runes ''setup-or-install'', runes ''overview-of-intro''])"
  have d: "distinct [12, 10, 11, 13 :: topic_ref]" by simp
  from CreateMapping_bijection [OF d, of kb_Slugify corpus
      "[runes ''introduction'', runes ''setup-or-install'', runes ''overview-of-intro'']"]
  have "inverse_maps (BySlug ?m) (ByTopic ?m)" by (elim conjE)
  then have "ByTopic ?m 12 = Some (runes ''intro'')"
    using corpus_result by (rule inverse_maps_fwd)
  with d corpus_result show ?thesis by simp
qed

text \<open>
  C8. Every topic whose normalized title is empty is to be left out of both maps, with a
  ``title missing'' error that names its file. The loop tests for a clash before it tests
  for the empty title, and the empty title has a slug like any other. So the topic
  \<^verbatim>\<open>b.xml\<close>, without a title and met after \<^verbatim>\<open>a.xml\<close>, whose title \<^verbatim>\<open>...\<close> has the same
  slug \<^verbatim>\<open>-\<close>, gets a ``clashing title'' error and no ``title missing'' error.
\<close>

theorem empty_title_reported_as_clash:
  "titelize (Title (corpus_empty 11)) = [] \<and>
   TitleMissing (Filename (corpus_empty 11))
     \<notin> set (fst (snd (CreateMapping kb_Slugify corpus_empty [10, 11] [runes ''-'']))) \<and>
   fst (snd (CreateMapping kb_Slugify corpus_empty [10, 11] [runes ''-''])) =
     [ClashingTitle [] (runes ''b.xml'') (runes ''a.xml'')]"
  by (simp add: mapping_eval corpus_empty_def)

text \<open>
  What holds for every topic whose normalized title is empty: it is in neither map of
  the returned Mapping, and an error that names its file is recorded, ``title missing''
  when the slug of the empty title has no owner at the moment the first loop meets the
  topic, and ``clashing title'', with the file of the owner, when it has one.
\<close>

lemma empty_title_excluded:
  assumes "distinct topics" "topics = ts1 @ t # ts2" "titelize (Title (h t)) = []"
  shows "ByTopic (fst (CreateMapping slugify h topics keys)) t = None \<and>
         t \<notin> ran (BySlug (fst (CreateMapping slugify h topics keys))) \<and>
         (case byslug (assign_slugs slugify (mapping_init h) ts1) (slugify []) of
            None \<Rightarrow>
              TitleMissing (Filename (h t)) \<in> set (fst (snd (CreateMapping slugify h topics keys)))
          | Some other \<Rightarrow>
              ClashingTitle [] (Filename (h t)) (Filename (h other))
                \<in> set (fst (snd (CreateMapping slugify h topics keys))))"
proof -
  let ?st = "assign_slugs slugify (mapping_init h) ts1"
  let ?st' = "assign_slug slugify ?st t"
  let ?st1 = "assign_slugs slugify (mapping_init h) topics"
  from assms(1,2) have d: "distinct (ts1 @ t # ts2)" by simp
  note at = first_pass_at [OF d, of slugify h]
  have st1: "?st1 = assign_slugs slugify ?st' ts2"
    by (simp add: assms(2) assign_slugs_append)
  from assms(3) at(1) have title: "titelize (Title (heap ?st t)) = []" by simp
  then have "bytopic ?st' t = None"
    by (simp add: assign_slug_rejected at(2))
  moreover from d have "t \<notin> set ts2" by simp
  ultimately have "bytopic ?st1 t = None"
    by (simp add: st1 bytopic_assign_slugs_other)
  note ex = excluded_after_second_pass [OF assms(1) this, of keys]
  have errs: "set (errors ?st') \<subseteq> set (fst (snd (CreateMapping slugify h topics keys)))"
    by (simp add: CreateMapping_parts st1 errors_assign_slugs)
  have "case byslug ?st (slugify []) of
      None \<Rightarrow> TitleMissing (Filename (h t)) \<in> set (errors ?st')
    | Some other \<Rightarrow> ClashingTitle [] (Filename (h t)) (Filename (h other)) \<in> set (errors ?st')"
  proof (cases "byslug ?st (slugify [])")
    case None
    with title have "TitleMissing (Filename (heap ?st t)) \<in> set (errors ?st')"
      by (intro assign_slug_missing) simp_all
    with None at(1) show ?thesis by simp
  next
    case (Some other)
    with title have "ClashingTitle (titelize (Title (heap ?st t))) (Filename (heap ?st t))
        (Filename (heap ?st other)) \<in> set (errors ?st')"
      by (intro assign_slug_clash) simp
    with Some title at show ?thesis by simp
  qed
  with errs have "case byslug ?st (slugify []) of
      None \<Rightarrow> TitleMissing (Filename (h t)) \<in> set (fst (snd (CreateMapping slugify h topics keys)))
    | Some other \<Rightarrow> ClashingTitle [] (Filename (h t)) (Filename (h other))
        \<in> set (fst (snd (CreateMapping slugify h topics keys)))"
    by (auto split: option.splits)
  with ex show ?thesis by simp
qed

lemma empty_title_excluded_example:
  "ByTopic (fst (CreateMapping kb_Slugify corpus_empty [10, 11] [runes ''-''])) 11 = None \<and>
   11 \<notin> ran (BySlug (fst (CreateMapping kb_Slugify corpus_empty [10, 11] [runes ''-'']))) \<and>
   ClashingTitle [] (runes ''b.xml'') (runes ''a.xml'')
     \<in> set (fst (snd (CreateMapping kb_Slugify corpus_empty [10, 11] [runes ''-'']))) \<and>
   ByTopic (fst (CreateMapping kb_Slugify corpus_empty [11, 10] [runes ''-''])) 11 = None \<and>
   TitleMissing (runes ''b.xml'')
     \<in> set (fst (snd (CreateMapping kb_Slugify corpus_empty [11, 10] [runes ''-''])))"
proof -
  have t: "titelize (Title (corpus_empty 11)) = []"
    by (simp add: corpus_empty_def mk_topic_def corpus_titles runes_Nil)
  have owner: "byslug (assign_slugs kb_Slugify (mapping_init corpus_empty) [10]) (kb_Slugify []) = Some 10"
    by (simp add: mapping_eval corpus_empty_def)
  have free: "byslug (assign_slugs kb_Slugify (mapping_init corpus_empty) []) (kb_Slugify []) = None"
    by (simp add: mapping_eval)
  have f: "Filename (corpus_empty 11) = runes ''b.xml''" "Filename (corpus_empty 10) = runes ''a.xml''"
    by (simp_all add: corpus_empty_def mk_topic_def)
  have "distinct [10, 11 :: topic_ref]" "[10, 11] = [10] @ 11 # ([] :: topic_ref list)" by simp_all
  from empty_title_excluded [where h = corpus_empty and t = 11 and slugify = kb_Slugify
      and keys = "[runes ''-'']", OF this t]
  have one: "ByTopic (fst (CreateMapping kb_Slugify corpus_empty [10, 11] [runes ''-''])) 11 = None \<and>
     11 \<notin> ran (BySlug (fst (CreateMapping kb_Slugify corpus_empty [10, 11] [runes ''-'']))) \<and>
     ClashingTitle [] (runes ''b.xml'') (runes ''a.xml'')
       \<in> set (fst (snd (CreateMapping kb_Slugify corpus_empty [10, 11] [runes ''-''])))"
    unfolding owner f option.case .
  have "distinct [11, 10 :: topic_ref]" "[11, 10] = [] @ 11 # [10 :: topic_ref]" by simp_all
  from empty_title_excluded [where h = corpus_empty and t = 11 and slugify = kb_Slugify
      and keys = "[runes ''-'']", OF this t]
  have two: "ByTopic (fst (CreateMapping kb_Slugify corpus_empty [11, 10] [runes ''-''])) 11 = None \<and>
     TitleMissing (runes ''b.xml'')
       \<in> set (fst (snd (CreateMapping kb_Slugify corpus_empty [11, 10] [runes ''-''])))"
    unfolding free f option.case by blast
  from one two show ?thesis by blast
qed

text \<open>
  C4 as the claim states it: of any two topics with one slug, exactly one is in the
  Mapping under that slug and the other has a clash error. In this corpus \<^verbatim>\<open>a.xml\<close> and
  \<^verbatim>\<open>b.xml\<close> have the same title, with the slug \<^verbatim>\<open>setup-guide\<close>; \<^verbatim>\<open>a.xml\<close> wins it and is then promoted to
  its short title, so that the returned Mapping has no entry under \<^verbatim>\<open>setup-guide\<close>.
  \<^verbatim>\<open>c.xml\<close> and \<^verbatim>\<open>d.xml\<close>, both without a title, share the slug of the empty title:
  neither is in the Mapping and neither has a clash error.
\<close>

theorem clash_claim_counterexample:
  "kb_Slugify (titelize (Title (corpus_clash 10))) = runes ''setup-guide'' \<and>
   kb_Slugify (titelize (Title (corpus_clash 11))) = runes ''setup-guide'' \<and>
   BySlug (fst (CreateMapping kb_Slugify corpus_clash [10, 11, 12, 13] [runes ''setup-guide'']))
     (runes ''setup-guide'') = None \<and>
   kb_Slugify (titelize (Title (corpus_clash 12))) = kb_Slugify (titelize (Title (corpus_clash 13))) \<and>
   ByTopic (fst (CreateMapping kb_Slugify corpus_clash [10, 11, 12, 13] [runes ''setup-guide''])) 12 = None \<and>
   ByTopic (fst (CreateMapping kb_Slugify corpus_clash [10, 11, 12, 13] [runes ''setup-guide''])) 13 = None \<and>
   fst (snd (CreateMapping kb_Slugify corpus_clash [10, 11, 12, 13] [runes ''setup-guide''])) =
     [ClashingTitle (runes ''Setup Guide'') (runes ''b.xml'') (runes ''a.xml''),
      TitleMissing (runes ''c.xml''), TitleMissing (runes ''d.xml'')]"
  by (simp add: mapping_eval corpus_clash_def)

text \<open>
  C4, amended. Let \<open>w\<close> and \<open>t\<close> be two topics with non-empty normalized titles that have
  the same slug \<open>s\<close>, \<open>w\<close> being the first topic that the first loop meets with a non-empty
  normalized title and this slug, and \<open>t\<close> being met later. After the first loop \<open>w\<close> is
  registered under \<open>s\<close>, both ways, and \<open>t\<close> is not registered; the errors that are returned
  hold the ``clashing title'' error with the title and the file of \<open>t\<close> and the file of
  \<open>w\<close>; in the returned Mapping \<open>t\<close> is in neither map and \<open>w\<close> is in both, under \<open>s\<close> or,
  when the second loop has promoted it, under the slug of its normalized short title,
  and under no other identifier. The topics after \<open>t\<close> are processed all the same: the
  statement holds wherever \<open>w\<close> and \<open>t\<close> stand in the corpus.
\<close>

theorem clash_handling:
  assumes "distinct topics" "topics = ts1 @ w # ts2 @ t # ts3"
    and "titelize (Title (h w)) \<noteq> []"
    and "slugify (titelize (Title (h w))) = s" "slugify (titelize (Title (h t))) = s"
    and "\<forall>x\<in>set ts1. slugify (titelize (Title (h x))) = s \<longrightarrow> titelize (Title (h x)) = []"
    and "titelize (Title (h t)) \<noteq> []"
  shows "byslug (assign_slugs slugify (mapping_init h) topics) s = Some w \<and>
         bytopic (assign_slugs slugify (mapping_init h) topics) w = Some s \<and>
         bytopic (assign_slugs slugify (mapping_init h) topics) t = None \<and>
         ClashingTitle (titelize (Title (h t))) (Filename (h t)) (Filename (h w))
           \<in> set (fst (snd (CreateMapping slugify h topics keys))) \<and>
         ByTopic (fst (CreateMapping slugify h topics keys)) t = None \<and>
         t \<notin> ran (BySlug (fst (CreateMapping slugify h topics keys))) \<and>
         w \<in> dom (ByTopic (fst (CreateMapping slugify h topics keys))) \<and>
         w \<in> ran (BySlug (fst (CreateMapping slugify h topics keys))) \<and>
         ((BySlug (fst (CreateMapping slugify h topics keys)) s = Some w \<and>
           ByTopic (fst (CreateMapping slugify h topics keys)) w = Some s) \<or>
          (BySlug (fst (CreateMapping slugify h topics keys))
             (slugify (titelize (ShortTitle (h w)))) = Some w \<and>
           ByTopic (fst (CreateMapping slugify h topics keys)) w
             = Some (slugify (titelize (ShortTitle (h w)))))) \<and>
         (\<forall>x. BySlug (fst (CreateMapping slugify h topics keys)) x = Some w \<longrightarrow>
            x = s \<or> x = slugify (titelize (ShortTitle (h w))))"
proof -
  let ?A = "assign_slugs slugify (mapping_init h) ts1"
  let ?B = "assign_slug slugify ?A w"
  let ?C = "assign_slugs slugify ?B ts2"
  let ?D = "assign_slug slugify ?C t"
  let ?st1 = "assign_slugs slugify (mapping_init h) topics"
  from assms(1,2) have dw: "distinct (ts1 @ w # (ts2 @ t # ts3))"
    and dt: "distinct ((ts1 @ w # ts2) @ t # ts3)" by simp_all
  note atw = first_pass_at [OF dw, of slugify h]
  note att = first_pass_at [OF dt, of slugify h]
  have C: "assign_slugs slugify (mapping_init h) (ts1 @ w # ts2) = ?C"
    by (simp add: assign_slugs_append)
  have st1: "?st1 = assign_slugs slugify ?D ts3"
    by (simp add: assms(2) assign_slugs_append)
  from dw have d1: "distinct ts1" by simp
  have free: "byslug ?A s = None"
  proof (rule ccontr)
    assume "byslug ?A s \<noteq> None"
    then obtain x where "byslug ?A s = Some x" by auto
    from byslug_assign_slugs_new [OF d1 this]
    have "x \<in> set ts1 \<and> s = slugify (titelize (Title (h x))) \<and> titelize (Title (h x)) \<noteq> []"
      by (simp add: mapping_init_def)
    with assms(6) show False by auto
  qed
  with assms(3,4) atw(1) have "byslug ?B s = Some w"
    using assign_slug_registered [of ?A slugify w] by simp
  then have "byslug ?C s = Some w" by (rule byslug_assign_slugs_mono)
  with assms(5) att(1) C have owner: "byslug ?C (slugify (titelize (Title (heap ?C t)))) = Some w"
    by simp
  then have "byslug ?D s = Some w"
    using \<open>byslug ?C s = Some w\<close> by (simp add: assign_slug_rejected)
  then have bs: "byslug ?st1 s = Some w"
    unfolding st1 by (rule byslug_assign_slugs_mono)
  from assms(1) have inv: "inverse_maps (byslug ?st1) (bytopic ?st1)"
    by (rule inverse_maps_first_pass)
  from inv bs have bw: "bytopic ?st1 w = Some s" by (rule inverse_maps_fwd)
  from owner have "bytopic ?D t = bytopic ?C t" by (simp add: assign_slug_rejected)
  with att(2) C have "bytopic ?D t = None" by simp
  moreover from dt have "t \<notin> set ts3" by simp
  ultimately have bt: "bytopic ?st1 t = None"
    by (simp add: st1 bytopic_assign_slugs_other)
  from owner
  have "ClashingTitle (titelize (Title (heap ?C t))) (Filename (heap ?C t)) (Filename (heap ?C w))
      \<in> set (errors ?D)"
    by (rule assign_slug_clash)
  with att(1,3) C have "ClashingTitle (titelize (Title (h t))) (Filename (h t)) (Filename (h w))
      \<in> set (errors ?D)"
    by metis
  with errors_assign_slugs [of ?D slugify ts3]
  have err: "ClashingTitle (titelize (Title (h t))) (Filename (h t)) (Filename (h w))
      \<in> set (fst (snd (CreateMapping slugify h topics keys)))"
    by (auto simp: CreateMapping_parts st1)
  from assms(2) have "w \<in> set topics" by simp
  with assms(1) have place:
    "(BySlug (fst (CreateMapping slugify h topics keys)) s = Some w \<and>
      ByTopic (fst (CreateMapping slugify h topics keys)) w = Some s) \<or>
     (BySlug (fst (CreateMapping slugify h topics keys))
        (slugify (titelize (ShortTitle (h w)))) = Some w \<and>
      ByTopic (fst (CreateMapping slugify h topics keys)) w
        = Some (slugify (titelize (ShortTitle (h w)))))"
    using bs by (rule winner_after_second_pass)
  from inv have "inverse_maps (BySlug (fst (CreateMapping slugify h topics keys)))
      (ByTopic (fst (CreateMapping slugify h topics keys)))"
    by (simp add: CreateMapping_parts inverse_maps_promotes)
  from inverse_maps_fwd [OF this] place
  have only: "\<forall>x. BySlug (fst (CreateMapping slugify h topics keys)) x = Some w \<longrightarrow>
      x = s \<or> x = slugify (titelize (ShortTitle (h w)))"
    by fastforce
  from bs bw bt err excluded_after_second_pass [OF assms(1) bt, of keys]
    kept_after_second_pass [OF assms(1) bw, of keys] place only
  show ?thesis by (intro conjI)
qed

theorem clash_handling_witness:
  "ClashingTitle (runes ''Setup or Install'') (runes ''b.xml'') (runes ''a.xml'')
     \<in> set (fst (snd (CreateMapping kb_Slugify corpus [12, 10, 11, 13] [runes ''introduction'']))) \<and>
   byslug (assign_slugs kb_Slugify (mapping_init corpus) [12, 10, 11, 13]) (runes ''setup-or-install'')
     = Some 10 \<and>
   ByTopic (fst (CreateMapping kb_Slugify corpus [12, 10, 11, 13] [runes ''introduction''])) 11 = None \<and>
   11 \<notin> ran (BySlug (fst (CreateMapping kb_Slugify corpus [12, 10, 11, 13] [runes ''introduction'']))) \<and>
   BySlug (fst (CreateMapping kb_Slugify corpus [12, 10, 11, 13] [runes ''introduction'']))
     (runes ''setup-or-install'') = Some 10 \<and>
   ByTopic (fst (CreateMapping kb_Slugify corpus [12, 10, 11, 13] [runes ''introduction''])) 10
     = Some (runes ''setup-or-install'')"
proof -
  have d: "distinct [12, 10, 11, 13 :: topic_ref]" by simp
  have dec: "[12, 10, 11, 13] = [12] @ 10 # [] @ 11 # [13 :: topic_ref]" by simp
  have h: "titelize (Title (corpus 10)) \<noteq> []"
    "kb_Slugify (titelize (Title (corpus 10))) = runes ''setup-or-install''"
    "kb_Slugify (titelize (Title (corpus 11))) = runes ''setup-or-install''"
    "\<forall>x\<in>set [12]. kb_Slugify (titelize (Title (corpus x))) = runes ''setup-or-install'' \<longrightarrow>
      titelize (Title (corpus x)) = []"
    "titelize (Title (corpus 11)) \<noteq> []"
    by (simp_all add: corpus_def mk_topic_def corpus_titles corpus_slugs runes_eq_iff runes_Nil)
  have f: "titelize (Title (corpus 11)) = runes ''Setup or Install''"
    "Filename (corpus 11) = runes ''b.xml''" "Filename (corpus 10) = runes ''a.xml''"
    "kb_Slugify (titelize (ShortTitle (corpus 10))) = runes ''-''"
    by (simp_all add: corpus_def mk_topic_def corpus_titles corpus_slugs runes_Nil)
  have free: "BySlug (fst (CreateMapping kb_Slugify corpus [12, 10, 11, 13] [runes ''introduction'']))
      (runes ''-'') = None"
    by (simp add: mapping_eval corpus_def)
  from clash_handling [where h = corpus and slugify = kb_Slugify and w = 10 and t = 11
      and keys = "[runes ''introduction'']", OF d dec h]
  show ?thesis unfolding f using free by auto
qed



section \<open>Claims about module/dita/convert.go\<close>

lemmas example_eval = example_externals_def example_conversion_def example_index_def
  example_topics_def example_rules_def model_SplitLink_def model_Dir_def model_Join_def
  model_Clean_def model_Run_def HasPrefix_def

text \<open>
  C6 as the claim states it: every scheme-qualified web reference passes through
  unchanged, without a lookup and without a diagnostic. The code takes a reference for
  a web reference by the prefix \<^verbatim>\<open>http:\<close> or \<^verbatim>\<open>https:\<close>, compared byte by byte. A
  reference with the scheme in capitals, \<^verbatim>\<open>HTTP://EXAMPLE.COM\<close>, is not recognised: it
  is joined to the directory of the topic, looked up in the index and not found, so the
  href is empty and a diagnostic is recorded.
\<close>

theorem web_reference_counterexample:
  "fst (ResolveLinkInfo (example_externals []) example_topics example_conversion
     ''HTTP://EXAMPLE.COM'') = ([], [], [], False) \<and>
   Errors (Context (snd (ResolveLinkInfo (example_externals []) example_topics example_conversion
     ''HTTP://EXAMPLE.COM''))) =
     [TopicNotFound ''sub/HTTP:/EXAMPLE.COM'' ''HTTP://EXAMPLE.COM'' []]"
  by (simp add: ResolveLinkInfo_def add_error_def example_eval)

text \<open>
  C6, amended. A reference that starts with \<^verbatim>\<open>http:\<close> or \<^verbatim>\<open>https:\<close>, in this spelling,
  comes back unchanged as the href, with empty title and synopsis and
  \<^verbatim>\<open>internal = false\<close>. The conversion comes back as it was, so no diagnostic is
  recorded, and the result is the same whatever the index, the mapping and the externals
  are: nothing is looked up.
\<close>

theorem web_reference_passes_through:
  assumes "HasPrefix url ''http:'' \<or> HasPrefix url ''https:''"
  shows "ResolveLinkInfo ext h conv url = ((url, [], [], False), conv)"
  using assms by (simp add: ResolveLinkInfo_def)

theorem web_reference_passes_through_witness:
  "HasPrefix ''http://example.com'' ''http:'' \<and>
   ResolveLinkInfo (example_externals []) example_topics example_conversion ''http://example.com'' =
     ((''http://example.com'', [], [], False), example_conversion)"
proof -
  have p: "HasPrefix ''http://example.com'' ''http:''"
    by (simp add: HasPrefix_def)
  then have "HasPrefix ''http://example.com'' ''http:'' \<or> HasPrefix ''http://example.com'' ''https:''"
    by (rule disjI1)
  from web_reference_passes_through [OF this] p show ?thesis by blast
qed

text \<open>
  C5. For a reference that is not taken for a web reference and whose path part is not
  empty, the path is joined to the directory of the topic being converted, made
  canonical and looked up in the index of the context. When the topic is found and has
  an identifier in \<^verbatim>\<open>ByTopic\<close>, the href is that identifier, followed by \<^verbatim>\<open>#\<close> and the
  selector when there is a selector, and \<^verbatim>\<open>internal\<close> is true.
\<close>

theorem internal_link_resolution:
  assumes "\<not> (HasPrefix url ''http:'' \<or> HasPrefix url ''https:'')"
    and "SplitLink ext url = (path, selector)" "path \<noteq> []"
    and "Index_Topics (Context conv)
           (CanonicalPath ext (path_Join ext (path_Dir ext (DecodingPath (Context conv))) path))
         = Some topic"
    and "Mapping_ByTopic conv topic = Some slug"
  shows "fst (fst (ResolveLinkInfo ext h conv url)) =
           (if selector \<noteq> [] then slug @ ''#'' @ selector else slug) \<and>
         snd (snd (snd (fst (ResolveLinkInfo ext h conv url)))) = True"
proof -
  have kept: "Mapping_ByTopic (add_error conv e) = Mapping_ByTopic conv" for e
    by (simp add: add_error_def)
  from assms show ?thesis
    by (simp add: ResolveLinkInfo_def Let_def kept split: prod.splits option.splits)
qed

theorem internal_link_resolution_witness:
  "fst (fst (ResolveLinkInfo (example_externals []) example_topics example_conversion
     ''../a.xml#intro'')) = ''alpha#intro'' \<and>
   snd (snd (snd (fst (ResolveLinkInfo (example_externals []) example_topics example_conversion
     ''../a.xml#intro'')))) = True"
proof -
  have "\<not> (HasPrefix ''../a.xml#intro'' ''http:'' \<or> HasPrefix ''../a.xml#intro'' ''https:'')"
    and "SplitLink (example_externals []) ''../a.xml#intro'' = (''../a.xml'', ''intro'')"
    and "''../a.xml'' \<noteq> []"
    and "Index_Topics (Context example_conversion)
           (CanonicalPath (example_externals [])
             (path_Join (example_externals [])
               (path_Dir (example_externals []) (DecodingPath (Context example_conversion)))
               ''../a.xml''))
         = Some 20"
    and "Mapping_ByTopic example_conversion 20 = Some ''alpha''"
    by (simp_all add: example_eval)
  from internal_link_resolution [OF this, of example_topics] show ?thesis by simp
qed

text \<open>
  C7. When the run of a topic fails, \<^verbatim>\<open>Convert\<close> returns the fatal error as its third
  result, apart from the list of diagnostics, which is nil; the page that comes back has
  an empty story, so no fragment of the topic is produced.
\<close>

theorem fatal_error_no_fragment:
  assumes "Run ext (conversion\<lparr>Context := NewConversion ext (conv_Index conversion)
             (conv_Topic conversion)\<rparr>) = (Some err, conversion')"
  shows "snd (snd (Convert ext h conversion id1 id2)) = Some err \<and>
         fst (snd (Convert ext h conversion id1 id2)) = [] \<and>
         Story (fst (Convert ext h conversion id1 id2)) = []"
  using assms by (simp add: Convert_def Let_def)

theorem fatal_error_no_fragment_witness:
  "run_tokens example_rules [] [] [StartElement ''a'', EndElement ''b''] =
     Inl ''unmatched end tag b'' \<and>
   snd (snd (Convert (example_externals [StartElement ''a'', EndElement ''b'']) example_topics
     example_conversion ''1'' ''2'')) = Some ''unmatched end tag b'' \<and>
   fst (snd (Convert (example_externals [StartElement ''a'', EndElement ''b'']) example_topics
     example_conversion ''1'' ''2'')) = [] \<and>
   Story (fst (Convert (example_externals [StartElement ''a'', EndElement ''b'']) example_topics
     example_conversion ''1'' ''2'')) = []"
proof -
  let ?ext = "example_externals [StartElement ''a'', EndElement ''b'']"
  let ?conv = "example_conversion\<lparr>Context := NewConversion ?ext (conv_Index example_conversion)
      (conv_Topic example_conversion)\<rparr>"
  have t: "run_tokens example_rules [] [] [StartElement ''a'', EndElement ''b''] =
      Inl ''unmatched end tag b''"
    by (simp add: example_rules_def)
  then have "Run ?ext ?conv = (Some ''unmatched end tag b'', ?conv)"
    by (simp add: example_externals_def model_Run_def)
  from fatal_error_no_fragment [OF this, of example_topics "''1''" "''2''"] t
  show ?thesis by blast
qed

text \<open>
  The run of the examples on the rule table and the input of the specification:
  the subtree of \<^verbatim>\<open>x\<close> is dropped, \<^verbatim>\<open>y\<close> is unwrapped and \<^verbatim>\<open>b\<close> becomes \<^verbatim>\<open>strong\<close>.
\<close>

lemma run_tokens_example:
  "run_tokens example_rules [] []
     [StartElement ''a'', StartElement ''x'', CharData ''drop-me'', EndElement ''x'',
      StartElement ''y'', StartElement ''b'', CharData ''k'', EndElement ''b'',
      EndElement ''y'', EndElement ''a''] = Inr ''<a><strong>k</strong></a>''"
  by (simp add: example_rules_def)

end
